theory Spec2Isabelle
  imports Complex_Main "HOL-Library.Sublist" "HOL-Library.AList" "HOL-Library.Word"
begin

section \<open>Python strings\<close>

text \<open>
  Query text, table names and paths are \<^typ>\<open>string\<close>: a character is a code point below
  256. \<^verbatim>\<open>str.isspace\<close> holds of the code points 9 to 13, 28 to 32, 133 and 160, and of no
  other below 256; these are the characters \<^verbatim>\<open>str.strip\<close> removes.
\<close>

definition isspace :: "char \<Rightarrow> bool" where
  "isspace c = ((of_char c :: nat) \<in> {9, 10, 11, 12, 13, 28, 29, 30, 31, 32, 133, 160})"

definition lstrip :: "string \<Rightarrow> string" where
  "lstrip s = dropWhile isspace s"

definition rstrip :: "string \<Rightarrow> string" where
  "rstrip s = rev (dropWhile isspace (rev s))"

definition strip :: "string \<Rightarrow> string" where
  "strip s = rstrip (lstrip s)"

text \<open>
  \<^verbatim>\<open>str.upper\<close> gives a list of code points, since three characters below 256 leave the
  range or grow: \<^verbatim>\<open>a\<close> .. \<^verbatim>\<open>z\<close> and the letters 224 to 254 (247, the division sign,
  is none) move down by 32, the micro sign 181 becomes U+039C, the sharp s 223 becomes
  \<^verbatim>\<open>SS\<close>, 255 becomes U+0178, and every other character stays.
\<close>

definition upper_char :: "char \<Rightarrow> nat list" where
  "upper_char c =
     (let n = (of_char c :: nat)
      in if 97 \<le> n \<and> n \<le> 122 then [n - 32]
         else if n = 181 then [924]
         else if n = 223 then [83, 83]
         else if 224 \<le> n \<and> n \<le> 254 \<and> n \<noteq> 247 then [n - 32]
         else if n = 255 then [376]
         else [n])"

definition upper :: "string \<Rightarrow> nat list" where
  "upper s = concat (map upper_char s)"

text \<open>The code points of a text.\<close>

definition codes :: "string \<Rightarrow> nat list" where
  "codes s = map of_char s"

text \<open>
  \<^verbatim>\<open>str.lower\<close> stays below 256: \<^verbatim>\<open>A\<close> .. \<^verbatim>\<open>Z\<close> and the letters 192 to 222 (215, the
  multiplication sign, is none) move up by 32.
\<close>

definition lower_char :: "char \<Rightarrow> char" where
  "lower_char c =
     (let n = (of_char c :: nat)
      in if (65 \<le> n \<and> n \<le> 90) \<or> (192 \<le> n \<and> n \<le> 222 \<and> n \<noteq> 215)
         then char_of (n + 32) else c)"

definition lower :: "string \<Rightarrow> string" where
  "lower s = map lower_char s"

text \<open>
  \<^verbatim>\<open>t.startswith(p)\<close> and \<^verbatim>\<open>p in t\<close>, for an upper-cased text \<open>t\<close> and a literal \<open>p\<close>.
\<close>

definition startswith :: "nat list \<Rightarrow> string \<Rightarrow> bool" where
  "startswith t p = prefix (codes p) t"

definition str_in :: "string \<Rightarrow> nat list \<Rightarrow> bool" where
  "str_in p t = sublist (codes p) t"

text \<open>\<^verbatim>\<open>s.replace(a, b)\<close> for a single character \<^verbatim>\<open>a\<close>.\<close>

definition replace_char :: "char \<Rightarrow> char \<Rightarrow> string \<Rightarrow> string" where
  "replace_char a b s = map (\<lambda>c. if c = a then b else c) s"

text \<open>\<^verbatim>\<open>str(n)\<close> of an integer, as an f-string interpolates it.\<close>

definition digit_char :: "nat \<Rightarrow> char" where
  "digit_char d = char_of (48 + d)"

fun digits :: "nat \<Rightarrow> string" where
  "digits n = (if n < 10 then [digit_char n] else digits (n div 10) @ [digit_char (n mod 10)])"

declare digits.simps [simp del]

definition str_int :: "int \<Rightarrow> string" where
  "str_int i = (if i < 0 then CHR ''-'' # digits (nat (- i)) else digits (nat i))"

section \<open>Values, tables and exceptions\<close>

text \<open>
  A cell of a table: SQL NULL (pandas \<^verbatim>\<open>None\<close>/\<^verbatim>\<open>NaN\<close>), an integer, a float
  (taken as the real number it denotes), text or a boolean.
\<close>

datatype cell = Null | IntV int | RealV real | TextV string | BoolV bool

text \<open>The pandas column types that a loaded table can have.\<close>

datatype dtype = Int64 | Float64 | Bool | Object | Datetime64

text \<open>
  A \<^verbatim>\<open>DataFrame\<close>: the ordered columns (name and dtype) and the rows in order.
\<close>

record dataframe =
  df_columns :: "(string \<times> dtype) list"
  df_rows :: "cell list list"

text \<open>A SQLite database: its catalog of tables, in creation order.\<close>

type_synonym database = "(string \<times> dataframe) list"

text \<open>
  Exceptions: \<^verbatim>\<open>UnicodeDecodeError\<close> (caught at line 125), the \<^verbatim>\<open>ValueError\<close>
  raised at line 133 when no encoding decodes the file, the \<^verbatim>\<open>IndexError\<close>,
  \<^verbatim>\<open>TypeError\<close>, \<^verbatim>\<open>KeyError\<close> and \<^verbatim>\<open>ValueError\<close> of a subscript, of a
  subscript of \<^verbatim>\<open>None\<close>, of a missing key and of a tuple unpacking, and any other
  \<^verbatim>\<open>Exception\<close> raised by a library call, with its \<^verbatim>\<open>str\<close>.
\<close>

datatype exc = UnicodeDecodeError | EncodingUndetermined | IndexError | TypeError
  | KeyError | ValueError | LibraryError string

text \<open>
  The message of a result, one constructor for each message template of the source
  (the source's texts are Chinese f-strings; the arguments are the interpolated values).
\<close>

datatype message =
    FileMissing string
  | UnsupportedFormat string
  | ImportSucceeded string
  | ImportFailed exc
  | DatabaseMissing string
  | ListFailed exc
  | TableMissing string
  | DescribeFailed exc
  | OnlySelectWith
  | SqlFailed exc
  | ReportFailed exc
  | UnsupportedOutput string
  | ExportSucceeded nat string
  | ExportFailed exc
  | CleanSucceeded string nat
  | CleanFailed exc
  | MemoryMB nat

text \<open>The values that results are made of; a \<^verbatim>\<open>dict\<close> keeps its insertion order.\<close>

datatype pyval =
    PNone
  | PStr string
  | PMsg message
  | PInt int
  | PReal real
  | PBool bool
  | PDtype dtype
  | PList "pyval list"
  | PDict "(pyval \<times> pyval) list"

type_synonym result = "(string \<times> pyval) list"

definition error_result :: "message \<Rightarrow> result" where
  "error_result m = [(''status'', PStr ''error''), (''message'', PMsg m)]"

definition status :: "result \<Rightarrow> pyval option" where
  "status r = map_of r ''status''"

fun pyval_of_cell :: "cell \<Rightarrow> pyval" where
  "pyval_of_cell Null = PNone"
| "pyval_of_cell (IntV i) = PInt i"
| "pyval_of_cell (RealV x) = PReal x"
| "pyval_of_cell (TextV s) = PStr s"
| "pyval_of_cell (BoolV b) = PBool b"

text \<open>
  \<^verbatim>\<open>dict(pairs)\<close>: a later pair with a key already present replaces the value and keeps
  the position of the first.
\<close>

definition dict_of :: "('k \<times> 'v) list \<Rightarrow> ('k \<times> 'v) list" where
  "dict_of ps = fold (\<lambda>(k, v) d. AList.update k v d) ps []"

definition cell_at :: "cell list \<Rightarrow> nat \<Rightarrow> cell" where
  "cell_at r j = (if j < length r then r ! j else Null)"

definition column_names :: "dataframe \<Rightarrow> string list" where
  "column_names df = map fst (df_columns df)"

text \<open>\<^verbatim>\<open>df.to_dict('records')\<close>: one dict per row, column name to value.\<close>

definition to_dict_records :: "dataframe \<Rightarrow> pyval list" where
  "to_dict_records df =
     map (\<lambda>r. PDict (dict_of (map (\<lambda>j. (PStr (column_names df ! j), pyval_of_cell (cell_at r j)))
                                 [0 ..< length (df_columns df)])))
         (df_rows df)"

section \<open>The environment and the registry of stores\<close>

text \<open>
  Everything the module calls but does not define: the temporary directory, the
  sequence of values \<^verbatim>\<open>uuid.uuid4()\<close> returns, the file system as pandas and chardet
  read it, and the SQLite engine behind a connection. A call that can raise returns
  \<open>Inl\<close> of the exception; an engine call also returns the database it leaves behind.
  \<^item> \<open>connect_error p\<close>: the exception \<^verbatim>\<open>sqlite3.connect(p)\<close> raises, if any;
  \<^item> \<open>chardet_detect p\<close>: \<^verbatim>\<open>open(p, 'rb')\<close>, \<^verbatim>\<open>read(10000)\<close> and
    \<^verbatim>\<open>chardet.detect(...)['encoding']\<close>;
  \<^item> \<open>read_csv p sep enc\<close>: \<^verbatim>\<open>pd.read_csv(p, sep=sep, encoding=enc)\<close>;
  \<^item> \<open>cursor_execute sql\<close>: \<^verbatim>\<open>cursor.execute(sql)\<close> and the rows it fetches;
  \<^item> \<open>to_sql name df\<close>: \<^verbatim>\<open>df.to_sql(name, conn, if_exists='replace', index=False)\<close>;
  \<^item> \<open>corr df i j\<close>: \<^verbatim>\<open>df.corr().iloc[i, j]\<close>, \<open>None\<close> when it is NaN;
  \<^item> \<open>mkdir_parents p\<close>: \<^verbatim>\<open>Path(p).parent.mkdir(parents=True, exist_ok=True)\<close>;
  \<^item> \<open>write_frame fmt p df\<close>: \<^verbatim>\<open>df.to_csv\<close>, \<^verbatim>\<open>df.to_excel\<close> or \<^verbatim>\<open>df.to_json\<close>;
  \<^item> \<open>float_str x\<close>: \<^verbatim>\<open>str(x)\<close> of a float.
\<close>

datatype out_format = Csv | Excel | Json

record env =
  tempdir :: string
  uuid4 :: "nat \<Rightarrow> 128 word"
  connect_error :: "string \<Rightarrow> exc option"
  path_exists :: "string \<Rightarrow> bool"
  chardet_detect :: "string \<Rightarrow> exc + string option"
  read_csv :: "string \<Rightarrow> char \<Rightarrow> string \<Rightarrow> exc + dataframe"
  read_excel :: "string \<Rightarrow> string option \<Rightarrow> exc + dataframe"
  read_json :: "string \<Rightarrow> exc + dataframe"
  read_parquet :: "string \<Rightarrow> exc + dataframe"
  cursor_execute :: "string \<Rightarrow> database \<Rightarrow> (exc + cell list list) \<times> database"
  read_sql_query :: "string \<Rightarrow> database \<Rightarrow> (exc + dataframe) \<times> database"
  to_sql :: "string \<Rightarrow> dataframe \<Rightarrow> database \<Rightarrow> (exc + unit) \<times> database"
  commit :: "database \<Rightarrow> (exc + unit) \<times> database"
  memory_usage :: "dataframe \<Rightarrow> nat"
  describe :: "dataframe \<Rightarrow> pyval"
  corr :: "dataframe \<Rightarrow> nat \<Rightarrow> nat \<Rightarrow> real option"
  mkdir_parents :: "string \<Rightarrow> exc option"
  write_frame :: "out_format \<Rightarrow> string \<Rightarrow> dataframe \<Rightarrow> exc option"
  float_str :: "real \<Rightarrow> string"

text \<open>
  An entry of \<^verbatim>\<open>_db_connections\<close>. A connection is identified by the path it was
  opened on.
\<close>

record db_info =
  connection :: string
  path :: string
  tables :: "string set"

text \<open>
  The state of the process: the registry \<^verbatim>\<open>_db_connections\<close>, the content of the
  database file at each path (a file that does not exist yet is the empty database, as
  SQLite opens it), and the number of UUIDs drawn so far. \<open>sql_log\<close> is a history
  variable: the statements submitted to the engine so far, each with its connection.
\<close>

record world =
  db_connections :: "string \<rightharpoonup> db_info"
  dbfiles :: "string \<Rightarrow> database"
  uuid_draws :: nat
  sql_log :: "(string \<times> string) list"

subsection \<open>Engine calls on a connection\<close>

definition log_call :: "string \<Rightarrow> string \<Rightarrow> database \<Rightarrow> world \<Rightarrow> world" where
  "log_call conn sql db' w =
     w\<lparr>dbfiles := (dbfiles w)(conn := db'), sql_log := sql_log w @ [(conn, sql)]\<rparr>"

definition conn_execute :: "env \<Rightarrow> string \<Rightarrow> string \<Rightarrow> world \<Rightarrow> (exc + cell list list) \<times> world" where
  "conn_execute E conn sql w =
     (case cursor_execute E sql (dbfiles w conn) of (r, db') \<Rightarrow> (r, log_call conn sql db' w))"

definition conn_read_sql_query :: "env \<Rightarrow> string \<Rightarrow> string \<Rightarrow> world \<Rightarrow> (exc + dataframe) \<times> world" where
  "conn_read_sql_query E conn sql w =
     (case read_sql_query E sql (dbfiles w conn) of (r, db') \<Rightarrow> (r, log_call conn sql db' w))"

definition conn_to_sql :: "env \<Rightarrow> string \<Rightarrow> string \<Rightarrow> dataframe \<Rightarrow> world \<Rightarrow> (exc + unit) \<times> world" where
  "conn_to_sql E conn name df w =
     (case to_sql E name df (dbfiles w conn) of
        (r, db') \<Rightarrow> (r, log_call conn (''to_sql '' @ name) db' w))"

definition conn_commit :: "env \<Rightarrow> string \<Rightarrow> world \<Rightarrow> (exc + unit) \<times> world" where
  "conn_commit E conn w =
     (case commit E (dbfiles w conn) of (r, db') \<Rightarrow> (r, log_call conn ''COMMIT'' db' w))"

subsection \<open>\<^verbatim>\<open>get_or_create_db\<close>\<close>

definition hex_char :: "nat \<Rightarrow> char" where
  "hex_char d = (if d < 10 then char_of (48 + d) else char_of (87 + d))"

text \<open>\<^verbatim>\<open>UUID.hex\<close>: the 32 lower-case hexadecimal digits of the 128-bit value.\<close>

definition uuid_hex :: "128 word \<Rightarrow> string" where
  "uuid_hex u = map (\<lambda>i. hex_char ((unat u div 16 ^ (31 - i)) mod 16)) [0 ..< 32]"

text \<open>\<^verbatim>\<open>os.path.join(d, f)\<close> for a relative \<open>f\<close>.\<close>

definition path_join :: "string \<Rightarrow> string \<Rightarrow> string" where
  "path_join d f = (if d = [] \<or> last d = CHR ''/'' then d @ f else d @ ''/'' @ f)"

definition db_path_of :: "env \<Rightarrow> string \<Rightarrow> nat \<Rightarrow> string" where
  "db_path_of E db_name n =
     path_join (tempdir E)
       (''data_analysis_'' @ db_name @ ''_'' @ take 8 (uuid_hex (uuid4 E n)) @ ''.db'')"

definition get_or_create_db :: "env \<Rightarrow> string \<Rightarrow> world \<Rightarrow> (exc + string) \<times> world" where
  "get_or_create_db E db_name w =
     (case db_connections w db_name of
        Some info \<Rightarrow> (Inr (connection info), w)
      | None \<Rightarrow>
          (let db_path = db_path_of E db_name (uuid_draws w);
               w1 = w\<lparr>uuid_draws := Suc (uuid_draws w)\<rparr>
           in case connect_error E db_path of
                Some e \<Rightarrow> (Inl e, w1)
              | None \<Rightarrow>
                  (Inr db_path,
                   w1\<lparr>db_connections := (db_connections w1)
                        (db_name \<mapsto> \<lparr>connection = db_path, path = db_path, tables = {}\<rparr>)\<rparr>)))"

section \<open>\<^verbatim>\<open>execute_sql\<close>\<close>

text \<open>The text handed to the engine once the gate has been passed (lines 296 to 305).\<close>

definition passes_gate :: "string \<Rightarrow> bool" where
  "passes_gate query =
     (startswith (upper (strip query)) ''SELECT'' \<or> startswith (upper (strip query)) ''WITH'')"

definition effective_query :: "string \<Rightarrow> int \<Rightarrow> string" where
  "effective_query query limit =
     (if \<not> str_in ''LIMIT'' (upper (strip query))
      then strip query @ '' LIMIT '' @ str_int limit
      else strip query)"

definition execute_sql :: "env \<Rightarrow> string \<Rightarrow> string \<Rightarrow> int \<Rightarrow> world \<Rightarrow> result \<times> world" where
  "execute_sql E query db_name limit w =
     (case db_connections w db_name of
        None \<Rightarrow> (error_result (DatabaseMissing db_name), w)
      | Some info \<Rightarrow>
          if \<not> passes_gate query then (error_result OnlySelectWith, w)
          else
            (case conn_read_sql_query E (connection info) (effective_query query limit) w of
               (Inl e, w') \<Rightarrow> (error_result (SqlFailed e), w')
             | (Inr df, w') \<Rightarrow>
                 ([(''status'', PStr ''success''),
                   (''database'', PStr db_name),
                   (''query'', PStr (effective_query query limit)),
                   (''row_count'', PInt (int (length (df_rows df)))),
                   (''columns'', PList (map PStr (column_names df))),
                   (''data'', PList (to_dict_records df))], w')))"

section \<open>\<^verbatim>\<open>import_file\<close>\<close>

subsection \<open>Paths\<close>

fun split_on :: "char \<Rightarrow> string \<Rightarrow> string list" where
  "split_on d [] = [[]]"
| "split_on d (c # cs) =
     (if c = d then [] # split_on d cs
      else (case split_on d cs of [] \<Rightarrow> [[c]] | p # ps \<Rightarrow> (c # p) # ps))"

text \<open>\<^verbatim>\<open>Path(p).name\<close>, \<^verbatim>\<open>.suffix\<close> and \<^verbatim>\<open>.stem\<close> on a POSIX path.\<close>

definition path_name :: "string \<Rightarrow> string" where
  "path_name p =
     (let cs = filter (\<lambda>c. c \<noteq> [] \<and> c \<noteq> ''.'') (split_on CHR ''/'' p)
      in if cs = [] then [] else last cs)"

text \<open>
  \<^verbatim>\<open>i = name.rfind('.')\<close> with \<^verbatim>\<open>0 < i < len(name) - 1\<close>: the position of the
  last dot, when there is one that is neither the first nor the last character.
\<close>

definition suffix_index :: "string \<Rightarrow> nat option" where
  "suffix_index n =
     (let r = takeWhile (\<lambda>c. c \<noteq> CHR ''.'') (rev n)
      in if CHR ''.'' \<in> set n \<and> r \<noteq> [] \<and> length r + 1 < length n
         then Some (length n - length r - 1) else None)"

definition path_suffix :: "string \<Rightarrow> string" where
  "path_suffix p =
     (case suffix_index (path_name p) of Some i \<Rightarrow> drop i (path_name p) | None \<Rightarrow> [])"

definition path_stem :: "string \<Rightarrow> string" where
  "path_stem p =
     (case suffix_index (path_name p) of Some i \<Rightarrow> take i (path_name p) | None \<Rightarrow> path_name p)"

subsection \<open>Loading\<close>

definition detect_file_encoding :: "env \<Rightarrow> string \<Rightarrow> string" where
  "detect_file_encoding E file_path =
     (case chardet_detect E file_path of
        Inl e \<Rightarrow> ''utf-8''
      | Inr None \<Rightarrow> ''utf-8''
      | Inr (Some enc) \<Rightarrow> if enc = [] then ''utf-8'' else enc)"

text \<open>\<^verbatim>\<open>x or d\<close> and the truth value of an optional string.\<close>

definition truthy :: "string option \<Rightarrow> bool" where
  "truthy x = (case x of None \<Rightarrow> False | Some s \<Rightarrow> s \<noteq> [])"

definition or_else :: "string option \<Rightarrow> string \<Rightarrow> string" where
  "or_else x d = (case x of None \<Rightarrow> d | Some s \<Rightarrow> if s = [] then d else s)"

text \<open>The \<^verbatim>\<open>for ... else\<close> of lines 126 to 133: the first encoding that loads wins.\<close>

fun try_encodings :: "env \<Rightarrow> string \<Rightarrow> string list \<Rightarrow> exc + dataframe" where
  "try_encodings E file_path [] = Inl EncodingUndetermined"
| "try_encodings E file_path (enc # encs) =
     (case read_csv E file_path CHR '','' enc of
        Inr df \<Rightarrow> Inr df
      | Inl e \<Rightarrow> try_encodings E file_path encs)"

definition fallback_encodings :: "string list" where
  "fallback_encodings = [''utf-8'', ''gbk'', ''gb2312'', ''latin-1'']"

definition load_csv :: "env \<Rightarrow> string \<Rightarrow> string option \<Rightarrow> exc + dataframe" where
  "load_csv E file_path encoding =
     (let enc = or_else encoding (detect_file_encoding E file_path)
      in case read_csv E file_path CHR '','' enc of
           Inl UnicodeDecodeError \<Rightarrow> try_encodings E file_path fallback_encodings
         | r \<Rightarrow> r)"

definition load_tsv :: "env \<Rightarrow> string \<Rightarrow> string option \<Rightarrow> exc + dataframe" where
  "load_tsv E file_path encoding =
     (let enc = or_else encoding (detect_file_encoding E file_path)
      in read_csv E file_path (char_of (9 :: nat)) enc)"

text \<open>
  The dispatch on the extension (lines 119 to 155); \<open>None\<close> is the early return for an
  unsupported extension.
\<close>

definition load_by_extension ::
  "env \<Rightarrow> string \<Rightarrow> string option \<Rightarrow> string option \<Rightarrow> (exc + dataframe) option" where
  "load_by_extension E file_path sheet_name encoding =
     (let file_ext = lower (path_suffix file_path)
      in if file_ext = ''.csv'' then Some (load_csv E file_path encoding)
         else if file_ext \<in> {''.xlsx'', ''.xls''} then
           Some (if truthy sheet_name then read_excel E file_path sheet_name
                 else read_excel E file_path None)
         else if file_ext = ''.json'' then Some (read_json E file_path)
         else if file_ext = ''.parquet'' then Some (read_parquet E file_path)
         else if file_ext = ''.tsv'' then Some (load_tsv E file_path encoding)
         else None)"

definition default_table_name :: "string \<Rightarrow> string" where
  "default_table_name file_path =
     replace_char CHR ''-'' CHR ''_'' (replace_char CHR '' '' CHR ''_'' (path_stem file_path))"

text \<open>\<^verbatim>\<open>_db_connections[db_name]['tables'].add(table_name)\<close>.\<close>

definition register_table :: "string \<Rightarrow> string \<Rightarrow> world \<Rightarrow> exc + world" where
  "register_table db_name table_name w =
     (case db_connections w db_name of
        None \<Rightarrow> Inl KeyError
      | Some info \<Rightarrow>
          Inr (w\<lparr>db_connections := (db_connections w)
                 (db_name \<mapsto> info\<lparr>tables := insert table_name (tables info)\<rparr>)\<rparr>))"

definition import_statistics :: "dataframe \<Rightarrow> pyval" where
  "import_statistics df =
     PDict [(PStr ''rows'', PInt (int (length (df_rows df)))),
            (PStr ''columns'', PInt (int (length (df_columns df)))),
            (PStr ''column_names'', PList (map PStr (column_names df))),
            (PStr ''column_types'',
               PDict (dict_of (map (\<lambda>(n, t). (PStr n, PDtype t)) (df_columns df))))]"

definition import_file ::
  "env \<Rightarrow> string \<Rightarrow> string option \<Rightarrow> string \<Rightarrow> string option \<Rightarrow> string option \<Rightarrow> world
     \<Rightarrow> result \<times> world" where
  "import_file E file_path table_name db_name sheet_name encoding w =
     (if \<not> path_exists E file_path then (error_result (FileMissing file_path), w)
      else
        let table = or_else table_name (default_table_name file_path)
        in case load_by_extension E file_path sheet_name encoding of
             None \<Rightarrow> (error_result (UnsupportedFormat (lower (path_suffix file_path))), w)
           | Some (Inl e) \<Rightarrow> (error_result (ImportFailed e), w)
           | Some (Inr df) \<Rightarrow>
               (case get_or_create_db E db_name w of
                  (Inl e, w1) \<Rightarrow> (error_result (ImportFailed e), w1)
                | (Inr conn, w1) \<Rightarrow>
                    (case conn_to_sql E conn table df w1 of
                       (Inl e, w2) \<Rightarrow> (error_result (ImportFailed e), w2)
                     | (Inr u, w2) \<Rightarrow>
                         (case register_table db_name table w2 of
                            Inl e \<Rightarrow> (error_result (ImportFailed e), w2)
                          | Inr w3 \<Rightarrow>
                              ([(''status'', PStr ''success''),
                                (''message'', PMsg (ImportSucceeded (path_name file_path))),
                                (''database'', PStr db_name),
                                (''table'', PStr table),
                                (''statistics'', import_statistics df)], w3)))))"

section \<open>\<^verbatim>\<open>list_tables\<close>\<close>

definition sqlite_master_query :: string where
  "sqlite_master_query = ''SELECT name FROM sqlite_master WHERE type='' @ [CHR 0x27] @ ''table'' @ [CHR 0x27] @ '';''"

text \<open>\<^verbatim>\<open>[row[0] for row in rows]\<close>.\<close>

fun first_column :: "cell list list \<Rightarrow> exc + cell list" where
  "first_column [] = Inr []"
| "first_column ([] # rows) = Inl IndexError"
| "first_column ((c # cs) # rows) =
     (case first_column rows of Inl e \<Rightarrow> Inl e | Inr xs \<Rightarrow> Inr (c # xs))"

definition list_tables :: "env \<Rightarrow> string \<Rightarrow> world \<Rightarrow> result \<times> world" where
  "list_tables E db_name w =
     (case db_connections w db_name of
        None \<Rightarrow> (error_result (DatabaseMissing db_name), w)
      | Some info \<Rightarrow>
          (case conn_execute E (connection info) sqlite_master_query w of
             (Inl e, w') \<Rightarrow> (error_result (ListFailed e), w')
           | (Inr rows, w') \<Rightarrow>
               (case first_column rows of
                  Inl e \<Rightarrow> (error_result (ListFailed e), w')
                | Inr names \<Rightarrow>
                    ([(''status'', PStr ''success''),
                      (''database'', PStr db_name),
                      (''tables'', PList (map pyval_of_cell names))], w'))))"

section \<open>\<^verbatim>\<open>describe_table\<close>\<close>

text \<open>
  Python's \<^verbatim>\<open>round(x, n)\<close> of a float, on the real number the float denotes: to the
  nearest multiple of \<open>10\<^sup>-\<^sup>n\<close>, a tie going to the even one.
\<close>

definition round_half_even :: "real \<Rightarrow> int" where
  "round_half_even x =
     (let f = \<lfloor>x\<rfloor>
      in if x - of_int f < 1 / 2 then f
         else if 1 / 2 < x - of_int f then f + 1
         else if even f then f else f + 1)"

definition round_to :: "nat \<Rightarrow> real \<Rightarrow> real" where
  "round_to n x = of_int (round_half_even (x * 10 ^ n)) / 10 ^ n"

fun cell_truthy :: "cell \<Rightarrow> bool" where
  "cell_truthy Null = False"
| "cell_truthy (IntV i) = (i \<noteq> 0)"
| "cell_truthy (RealV x) = (x \<noteq> 0)"
| "cell_truthy (TextV s) = (s \<noteq> [])"
| "cell_truthy (BoolV b) = b"

fun round_cell :: "nat \<Rightarrow> cell \<Rightarrow> exc + pyval" where
  "round_cell n Null = Inl TypeError"
| "round_cell n (IntV i) = Inr (PInt i)"
| "round_cell n (RealV x) = Inr (PReal (round_to n x))"
| "round_cell n (TextV s) = Inl TypeError"
| "round_cell n (BoolV b) = Inr (PInt (if b then 1 else 0))"

text \<open>\<^verbatim>\<open>round(avg_val, 2) if avg_val else None\<close> (line 257).\<close>

definition avg_entry :: "cell \<Rightarrow> exc + pyval" where
  "avg_entry avg_val = (if cell_truthy avg_val then round_cell 2 avg_val else Inr PNone)"

text \<open>\<^verbatim>\<open>cursor.fetchone()[0]\<close> and \<^verbatim>\<open>a, b, c = cursor.fetchone()\<close>.\<close>

fun fetchone_first :: "cell list list \<Rightarrow> exc + cell" where
  "fetchone_first [] = Inl TypeError"
| "fetchone_first ([] # rows) = Inl IndexError"
| "fetchone_first ((c # cs) # rows) = Inr c"

fun fetchone_triple :: "cell list list \<Rightarrow> exc + cell \<times> cell \<times> cell" where
  "fetchone_triple [] = Inl TypeError"
| "fetchone_triple ([a, b, c] # rows) = Inr (a, b, c)"
| "fetchone_triple (r # rows) = Inl ValueError"

definition is_number :: "dtype \<Rightarrow> bool" where
  "is_number t = (t = Int64 \<or> t = Float64)"

text \<open>\<^verbatim>\<open>df.select_dtypes(include=['number']).columns\<close>.\<close>

definition numeric_columns :: "dataframe \<Rightarrow> string list" where
  "numeric_columns df = map fst (filter (\<lambda>(n, t). is_number t) (df_columns df))"

definition stats_query :: "string \<Rightarrow> string \<Rightarrow> string" where
  "stats_query col table_name =
     ''SELECT MIN('' @ col @ ''), MAX('' @ col @ ''), AVG('' @ col @ '') FROM '' @ table_name @ '';''"

definition stats_entry :: "cell \<Rightarrow> cell \<Rightarrow> pyval \<Rightarrow> pyval" where
  "stats_entry min_val max_val avg =
     PDict [(PStr ''min'', pyval_of_cell min_val),
            (PStr ''max'', pyval_of_cell max_val),
            (PStr ''avg'', avg)]"

text \<open>The loop of lines 251 to 258; \<open>acc\<close> is \<^verbatim>\<open>numeric_stats\<close> so far.\<close>

fun numeric_statistics ::
  "env \<Rightarrow> string \<Rightarrow> string \<Rightarrow> string list \<Rightarrow> (pyval \<times> pyval) list \<Rightarrow> world
     \<Rightarrow> (exc + (pyval \<times> pyval) list) \<times> world" where
  "numeric_statistics E conn table_name [] acc w = (Inr acc, w)"
| "numeric_statistics E conn table_name (col # cols) acc w =
     (case conn_execute E conn (stats_query col table_name) w of
        (Inl e, w1) \<Rightarrow> (Inl e, w1)
      | (Inr rows, w1) \<Rightarrow>
          (case fetchone_triple rows of
             Inl e \<Rightarrow> (Inl e, w1)
           | Inr (min_val, max_val, avg_val) \<Rightarrow>
               (case avg_entry avg_val of
                  Inl e \<Rightarrow> (Inl e, w1)
                | Inr avg \<Rightarrow>
                    numeric_statistics E conn table_name cols
                      (AList.update (PStr col) (stats_entry min_val max_val avg) acc) w1)))"

text \<open>\<^verbatim>\<open>[{"name": col[1], "type": col[2]} for col in columns_info]\<close>.\<close>

fun columns_of_info :: "cell list list \<Rightarrow> exc + pyval list" where
  "columns_of_info [] = Inr []"
| "columns_of_info (r # rows) =
     (if length r < 3 then Inl IndexError
      else case columns_of_info rows of
             Inl e \<Rightarrow> Inl e
           | Inr cs \<Rightarrow>
               Inr (PDict [(PStr ''name'', pyval_of_cell (r ! 1)),
                           (PStr ''type'', pyval_of_cell (r ! 2))] # cs))"

definition describe_table :: "env \<Rightarrow> string \<Rightarrow> string \<Rightarrow> world \<Rightarrow> result \<times> world" where
  "describe_table E table_name db_name w =
     (case db_connections w db_name of
        None \<Rightarrow> (error_result (DatabaseMissing db_name), w)
      | Some info \<Rightarrow>
          (case conn_execute E (connection info) (''PRAGMA table_info('' @ table_name @ '');'') w of
             (Inl e, w1) \<Rightarrow> (error_result (DescribeFailed e), w1)
           | (Inr columns_info, w1) \<Rightarrow>
               if columns_info = [] then (error_result (TableMissing table_name), w1)
               else
                 (case conn_execute E (connection info)
                         (''SELECT COUNT(*) FROM '' @ table_name @ '';'') w1 of
                    (Inl e, w2) \<Rightarrow> (error_result (DescribeFailed e), w2)
                  | (Inr rows, w2) \<Rightarrow>
                      (case fetchone_first rows of
                         Inl e \<Rightarrow> (error_result (DescribeFailed e), w2)
                       | Inr row_count \<Rightarrow>
                           (case conn_read_sql_query E (connection info)
                                   (''SELECT * FROM '' @ table_name @ '' LIMIT 5'') w2 of
                              (Inl e, w3) \<Rightarrow> (error_result (DescribeFailed e), w3)
                            | (Inr df_sample, w3) \<Rightarrow>
                                (case numeric_statistics E (connection info) table_name
                                        (numeric_columns df_sample) [] w3 of
                                   (Inl e, w4) \<Rightarrow> (error_result (DescribeFailed e), w4)
                                 | (Inr numeric_stats, w4) \<Rightarrow>
                                     (case columns_of_info columns_info of
                                        Inl e \<Rightarrow> (error_result (DescribeFailed e), w4)
                                      | Inr cols \<Rightarrow>
                                          ([(''status'', PStr ''success''),
                                            (''database'', PStr db_name),
                                            (''table'', PStr table_name),
                                            (''row_count'', pyval_of_cell row_count),
                                            (''columns'', PList cols),
                                            (''sample_data'', PList (to_dict_records df_sample)),
                                            (''numeric_statistics'', PDict numeric_stats)],
                                           w4))))))))"

section \<open>\<^verbatim>\<open>generate_analysis_report\<close>\<close>

subsection \<open>The pandas summaries of a table\<close>

definition column_cells :: "dataframe \<Rightarrow> nat \<Rightarrow> cell list" where
  "column_cells df j = map (\<lambda>r. cell_at r j) (df_rows df)"

definition numeric_indices :: "dataframe \<Rightarrow> nat list" where
  "numeric_indices df =
     map fst (filter (\<lambda>(j, n, t). is_number t) (enumerate 0 (df_columns df)))"

text \<open>\<^verbatim>\<open>df.select_dtypes(include=['number'])\<close>.\<close>

definition select_numeric :: "dataframe \<Rightarrow> dataframe" where
  "select_numeric df =
     \<lparr>df_columns = filter (\<lambda>(n, t). is_number t) (df_columns df),
      df_rows = map (\<lambda>r. map (cell_at r) (numeric_indices df)) (df_rows df)\<rparr>"

text \<open>\<^verbatim>\<open>df.isnull().sum()\<close>: for each column, in order, the number of missing cells.\<close>

definition null_count :: "dataframe \<Rightarrow> nat \<Rightarrow> nat" where
  "null_count df j = length (filter (\<lambda>c. c = Null) (column_cells df j))"

definition missing_data :: "dataframe \<Rightarrow> (string \<times> nat) list" where
  "missing_data df = map (\<lambda>(j, n, t). (n, null_count df j)) (enumerate 0 (df_columns df))"

text \<open>
  \<^verbatim>\<open>df.dtypes.value_counts()\<close>: each dtype with the number of columns that have it,
  the most frequent first.
\<close>

definition dtype_counts :: "dataframe \<Rightarrow> (dtype \<times> nat) list" where
  "dtype_counts df =
     (let ts = map snd (df_columns df)
      in sort_key (\<lambda>(t, k). - int k) (map (\<lambda>t. (t, count_list ts t)) (remdups ts)))"

text \<open>\<^verbatim>\<open>df.duplicated().sum()\<close>: the rows equal to an earlier row.\<close>

fun count_duplicated :: "'a list \<Rightarrow> 'a list \<Rightarrow> nat" where
  "count_duplicated seen [] = 0"
| "count_duplicated seen (r # rs) =
     (if r \<in> set seen then 1 else 0) + count_duplicated (r # seen) rs"

text \<open>\<^verbatim>\<open>df[col].nunique()\<close>: the distinct values of a column, missing ones left out.\<close>

definition nunique :: "dataframe \<Rightarrow> nat \<Rightarrow> nat" where
  "nunique df j = length (remdups (filter (\<lambda>c. c \<noteq> Null) (column_cells df j)))"

subsection \<open>The sections of the report\<close>

definition basic_tiers :: "string list" where
  "basic_tiers = [''basic'', ''statistical'', ''correlation'']"

definition statistical_tiers :: "string list" where
  "statistical_tiers = [''statistical'', ''correlation'']"

text \<open>Lines 361 to 363.\<close>

definition missing_values_section :: "dataframe \<Rightarrow> (pyval \<times> pyval) list" where
  "missing_values_section df =
     (if 0 < sum_list (map snd (missing_data df))
      then [(PStr ''missing_values'',
             PDict (dict_of (map (\<lambda>(n, k). (PStr n, PInt (int k)))
                                 (filter (\<lambda>(n, k). 0 < k) (missing_data df)))))]
      else [])"

definition basic_sections :: "env \<Rightarrow> dataframe \<Rightarrow> (pyval \<times> pyval) list" where
  "basic_sections E df =
     (if 0 < length (numeric_columns df)
      then [(PStr ''numeric_summary'', describe E (select_numeric df))] else [])
     @ missing_values_section df
     @ [(PStr ''data_types'',
         PDict (map (\<lambda>(t, k). (PDtype t, PInt (int k))) (dtype_counts df)))]"

text \<open>Lines 370 to 381.\<close>

definition unique_counts :: "dataframe \<Rightarrow> (pyval \<times> pyval) list" where
  "unique_counts df =
     dict_of (map (\<lambda>(j, n, t). (PStr n, PInt (int (nunique df j))))
                  (filter (\<lambda>(j, n, t). nunique df j < length (df_rows df))
                          (enumerate 0 (df_columns df))))"

definition statistical_sections :: "dataframe \<Rightarrow> (pyval \<times> pyval) list" where
  "statistical_sections df =
     (if 0 < count_duplicated [] (df_rows df)
      then [(PStr ''duplicate_rows'', PInt (int (count_duplicated [] (df_rows df))))] else [])
     @ (if unique_counts df \<noteq> []
        then [(PStr ''unique_value_counts'', PDict (unique_counts df))] else [])"

text \<open>
  Lines 389 to 398. The threshold \<^verbatim>\<open>0.7\<close> is the double just below \<open>7/10\<close>; no double lies
  between the two, so a double exceeds the one exactly when it exceeds the other.
\<close>

definition corr_entry :: "string \<Rightarrow> string \<Rightarrow> real \<Rightarrow> pyval" where
  "corr_entry c1 c2 corr_val =
     PDict [(PStr ''column1'', PStr c1),
            (PStr ''column2'', PStr c2),
            (PStr ''correlation'', PReal (round_to 3 corr_val))]"

definition high_corr_at :: "env \<Rightarrow> dataframe \<Rightarrow> nat \<Rightarrow> nat \<Rightarrow> pyval list" where
  "high_corr_at E numeric_df i j =
     (case corr E numeric_df i j of
        None \<Rightarrow> []
      | Some corr_val \<Rightarrow>
          if 7 / 10 < \<bar>corr_val\<bar>
          then [corr_entry (column_names numeric_df ! i) (column_names numeric_df ! j) corr_val]
          else [])"

definition high_corr_pairs :: "env \<Rightarrow> dataframe \<Rightarrow> pyval list" where
  "high_corr_pairs E numeric_df =
     (let n = length (df_columns numeric_df)
      in concat (map (\<lambda>i. concat (map (\<lambda>j. high_corr_at E numeric_df i j) [i + 1 ..< n]))
                     [0 ..< n]))"

definition correlation_sections :: "env \<Rightarrow> dataframe \<Rightarrow> (pyval \<times> pyval) list" where
  "correlation_sections E df =
     (let numeric_df = select_numeric df
      in if 1 < length (df_columns numeric_df) \<and> high_corr_pairs E numeric_df \<noteq> []
         then [(PStr ''high_correlations'', PList (high_corr_pairs E numeric_df))]
         else [])"

definition report_of :: "env \<Rightarrow> string \<Rightarrow> string \<Rightarrow> dataframe \<Rightarrow> (pyval \<times> pyval) list" where
  "report_of E table_name analysis_type df =
     [(PStr ''table'', PStr table_name),
      (PStr ''analysis_type'', PStr analysis_type),
      (PStr ''basic_info'',
         PDict [(PStr ''rows'', PInt (int (length (df_rows df)))),
                (PStr ''columns'', PInt (int (length (df_columns df)))),
                (PStr ''memory_usage'', PMsg (MemoryMB (memory_usage E df)))])]
     @ (if analysis_type \<in> set basic_tiers then basic_sections E df else [])
     @ (if analysis_type \<in> set statistical_tiers then statistical_sections df else [])
     @ (if analysis_type = ''correlation'' then correlation_sections E df else [])"

definition generate_analysis_report ::
  "env \<Rightarrow> string \<Rightarrow> string \<Rightarrow> string \<Rightarrow> world \<Rightarrow> result \<times> world" where
  "generate_analysis_report E table_name db_name analysis_type w =
     (case db_connections w db_name of
        None \<Rightarrow> (error_result (DatabaseMissing db_name), w)
      | Some info \<Rightarrow>
          (case conn_read_sql_query E (connection info) (''SELECT * FROM '' @ table_name) w of
             (Inl e, w') \<Rightarrow> (error_result (ReportFailed e), w')
           | (Inr df, w') \<Rightarrow>
               ([(''status'', PStr ''success''),
                 (''database'', PStr db_name),
                 (''report'', PDict (report_of E table_name analysis_type df))], w')))"

section \<open>\<^verbatim>\<open>export_query_result\<close>\<close>

definition write_result ::
  "env \<Rightarrow> out_format \<Rightarrow> string \<Rightarrow> string \<Rightarrow> dataframe \<Rightarrow> world \<Rightarrow> result \<times> world" where
  "write_result E fmt format output_path df w =
     (case write_frame E fmt output_path df of
        Some e \<Rightarrow> (error_result (ExportFailed e), w)
      | None \<Rightarrow>
          ([(''status'', PStr ''success''),
            (''message'', PMsg (ExportSucceeded (length (df_rows df)) output_path)),
            (''output_path'', PStr output_path),
            (''format'', PStr format),
            (''row_count'', PInt (int (length (df_rows df))))], w))"

definition export_query_result ::
  "env \<Rightarrow> string \<Rightarrow> string \<Rightarrow> string \<Rightarrow> string \<Rightarrow> world \<Rightarrow> result \<times> world" where
  "export_query_result E query output_path db_name format w =
     (case db_connections w db_name of
        None \<Rightarrow> (error_result (DatabaseMissing db_name), w)
      | Some info \<Rightarrow>
          (case conn_read_sql_query E (connection info) query w of
             (Inl e, w') \<Rightarrow> (error_result (ExportFailed e), w')
           | (Inr df, w') \<Rightarrow>
               (case mkdir_parents E output_path of
                  Some e \<Rightarrow> (error_result (ExportFailed e), w')
                | None \<Rightarrow>
                    if lower format = ''csv'' then write_result E Csv format output_path df w'
                    else if lower format = ''excel'' then write_result E Excel format output_path df w'
                    else if lower format = ''json'' then write_result E Json format output_path df w'
                    else (error_result (UnsupportedOutput format), w'))))"

section \<open>\<^verbatim>\<open>clean_database\<close>\<close>

text \<open>The text an f-string puts for a fetched value.\<close>

fun cell_str :: "env \<Rightarrow> cell \<Rightarrow> string" where
  "cell_str E Null = ''None''"
| "cell_str E (IntV i) = str_int i"
| "cell_str E (RealV x) = float_str E x"
| "cell_str E (TextV s) = s"
| "cell_str E (BoolV b) = (if b then ''True'' else ''False'')"

definition drop_statement :: "env \<Rightarrow> cell \<Rightarrow> string" where
  "drop_statement E t = ''DROP TABLE IF EXISTS '' @ cell_str E t @ '';''"

text \<open>The loop of lines 484 and 485: it stops at the first statement that raises.\<close>

fun drop_tables :: "env \<Rightarrow> string \<Rightarrow> cell list \<Rightarrow> world \<Rightarrow> exc option \<times> world" where
  "drop_tables E conn [] w = (None, w)"
| "drop_tables E conn (t # ts) w =
     (case conn_execute E conn (drop_statement E t) w of
        (Inl e, w1) \<Rightarrow> (Some e, w1)
      | (Inr rows, w1) \<Rightarrow> drop_tables E conn ts w1)"

text \<open>\<^verbatim>\<open>_db_connections[db_name]['tables'].clear()\<close>.\<close>

definition clear_tables :: "string \<Rightarrow> world \<Rightarrow> exc + world" where
  "clear_tables db_name w =
     (case db_connections w db_name of
        None \<Rightarrow> Inl KeyError
      | Some info \<Rightarrow>
          Inr (w\<lparr>db_connections := (db_connections w)(db_name \<mapsto> info\<lparr>tables := {}\<rparr>)\<rparr>))"

definition clean_database :: "env \<Rightarrow> string \<Rightarrow> world \<Rightarrow> result \<times> world" where
  "clean_database E db_name w =
     (case db_connections w db_name of
        None \<Rightarrow> (error_result (DatabaseMissing db_name), w)
      | Some info \<Rightarrow>
          (case conn_execute E (connection info) sqlite_master_query w of
             (Inl e, w1) \<Rightarrow> (error_result (CleanFailed e), w1)
           | (Inr rows, w1) \<Rightarrow>
               (case first_column rows of
                  Inl e \<Rightarrow> (error_result (CleanFailed e), w1)
                | Inr names \<Rightarrow>
                    (case drop_tables E (connection info) names w1 of
                       (Some e, w2) \<Rightarrow> (error_result (CleanFailed e), w2)
                     | (None, w2) \<Rightarrow>
                         (case conn_commit E (connection info) w2 of
                            (Inl e, w3) \<Rightarrow> (error_result (CleanFailed e), w3)
                          | (Inr u, w3) \<Rightarrow>
                              (case clear_tables db_name w3 of
                                 Inl e \<Rightarrow> (error_result (CleanFailed e), w3)
                               | Inr w4 \<Rightarrow>
                                   ([(''status'', PStr ''success''),
                                     (''message'', PMsg (CleanSucceeded db_name (length names))),
                                     (''deleted_tables'', PList (map pyval_of_cell names))],
                                    w4)))))))"

section \<open>A reference environment\<close>

text \<open>
  A small deterministic environment on which the results below are instantiated: an
  engine that understands the statements the module itself issues and, on one line,
  \<^verbatim>\<open>SELECT * FROM t [LIMIT n]\<close> (keywords in either case, a negative \<open>n\<close> for no
  limit, the rest of the line after \<^verbatim>\<open>--\<close> a comment, as in SQLite), and a file system
  of five files.
\<close>

definition between :: "string \<Rightarrow> string \<Rightarrow> string \<Rightarrow> string option" where
  "between pre suf s =
     (if prefix pre s \<and> suffix suf (drop (length pre) s)
      then Some (take (length s - length pre - length suf) (drop (length pre) s))
      else None)"

definition is_digit :: "char \<Rightarrow> bool" where
  "is_digit c = (48 \<le> (of_char c :: nat) \<and> (of_char c :: nat) \<le> 57)"

definition is_ident_char :: "char \<Rightarrow> bool" where
  "is_ident_char c =
     (is_digit c \<or> c = CHR ''_''
      \<or> (65 \<le> (of_char c :: nat) \<and> (of_char c :: nat) \<le> 90)
      \<or> (97 \<le> (of_char c :: nat) \<and> (of_char c :: nat) \<le> 122))"

definition is_identifier :: "string \<Rightarrow> bool" where
  "is_identifier s = (s \<noteq> [] \<and> \<not> is_digit (hd s) \<and> list_all is_ident_char s)"

definition parse_nat :: "string \<Rightarrow> nat" where
  "parse_nat s = fold (\<lambda>c n. 10 * n + ((of_char c :: nat) - 48)) s 0"

definition syntax_error :: exc where
  "syntax_error = LibraryError ''syntax error''"

definition no_such_table :: exc where
  "no_such_table = LibraryError ''no such table''"

fun before_comment :: "string \<Rightarrow> string" where
  "before_comment (a # b # cs) =
     (if a = CHR ''-'' \<and> b = CHR ''-'' then [] else a # before_comment (b # cs))"
| "before_comment cs = cs"

definition trim_blanks :: "string \<Rightarrow> string" where
  "trim_blanks s =
     rev (dropWhile (\<lambda>c. c = CHR '' '') (rev (dropWhile (\<lambda>c. c = CHR '' '') s)))"

definition statement_text :: "string \<Rightarrow> string" where
  "statement_text sql = trim_blanks (before_comment sql)"

definition ref_select :: "string \<Rightarrow> database \<Rightarrow> exc + dataframe" where
  "ref_select sql db =
     (if char_of (10 :: nat) \<in> set sql
         \<or> upper (take 14 (statement_text sql)) \<noteq> codes ''SELECT * FROM ''
      then Inl syntax_error
      else
        let rest = drop 14 (statement_text sql);
            name = takeWhile (\<lambda>c. c \<noteq> CHR '' '') rest;
            tail = drop (length name) rest
        in if \<not> is_identifier name then Inl syntax_error
           else case map_of db name of
                  None \<Rightarrow> Inl no_such_table
                | Some df \<Rightarrow>
                    if tail = [] then Inr df
                    else if upper (take 7 tail) \<noteq> codes '' LIMIT '' \<or> drop 7 tail = []
                      then Inl syntax_error
                    else if list_all is_digit (drop 7 tail)
                      then Inr (df\<lparr>df_rows := take (parse_nat (drop 7 tail)) (df_rows df)\<rparr>)
                    else if hd (drop 7 tail) = CHR ''-'' \<and> drop 8 tail \<noteq> []
                            \<and> list_all is_digit (drop 8 tail)
                      then Inr df
                    else Inl syntax_error)"

definition sql_type :: "dtype \<Rightarrow> string" where
  "sql_type t =
     (case t of Int64 \<Rightarrow> ''INTEGER'' | Float64 \<Rightarrow> ''REAL'' | Bool \<Rightarrow> ''INTEGER''
      | Object \<Rightarrow> ''TEXT'' | Datetime64 \<Rightarrow> ''TIMESTAMP'')"

definition ref_table_info :: "string \<Rightarrow> database \<Rightarrow> cell list list" where
  "ref_table_info name db =
     (case map_of db name of
        None \<Rightarrow> []
      | Some df \<Rightarrow>
          map (\<lambda>(j, n, t). [IntV (int j), TextV n, TextV (sql_type t), IntV 0, Null, IntV 0])
              (enumerate 0 (df_columns df)))"

fun cell_number :: "cell \<Rightarrow> real option" where
  "cell_number (IntV i) = Some (of_int i)"
| "cell_number (RealV x) = Some x"
| "cell_number c = None"

definition ref_aggregates :: "real list \<Rightarrow> cell list" where
  "ref_aggregates xs =
     (if xs = [] then [Null, Null, Null]
      else [RealV (fold min xs (hd xs)), RealV (fold max xs (hd xs)),
            RealV (sum_list xs / of_nat (length xs))])"

definition ref_stats :: "string \<Rightarrow> database \<Rightarrow> exc + cell list list" where
  "ref_stats rest db =
     (let col = takeWhile (\<lambda>c. c \<noteq> CHR '')'') rest;
          head = col @ ''), MAX('' @ col @ ''), AVG('' @ col @ '') FROM '';
          name = drop (length head) rest
      in if \<not> prefix head rest \<or> \<not> is_identifier col \<or> \<not> is_identifier name
         then Inl syntax_error
         else case map_of db name of
                None \<Rightarrow> Inl no_such_table
              | Some df \<Rightarrow>
                  (case List.find (\<lambda>(j, n, t). n = col) (enumerate 0 (df_columns df)) of
                     None \<Rightarrow> Inl (LibraryError ''no such column'')
                   | Some (j, n, t) \<Rightarrow>
                       Inr [ref_aggregates
                              (List.map_filter cell_number (column_cells df j))]))"

definition ref_execute :: "string \<Rightarrow> database \<Rightarrow> (exc + cell list list) \<times> database" where
  "ref_execute sql db =
     (if sql = sqlite_master_query then (Inr (map (\<lambda>(n, df). [TextV n]) db), db)
      else case between ''DROP TABLE IF EXISTS '' '';'' sql of
        Some name \<Rightarrow>
          if is_identifier name then (Inr [], filter (\<lambda>(n, df). n \<noteq> name) db)
          else (Inl syntax_error, db)
      | None \<Rightarrow>
      (case between ''PRAGMA table_info('' '');'' sql of
        Some name \<Rightarrow>
          if is_identifier name then (Inr (ref_table_info name db), db)
          else (Inl syntax_error, db)
      | None \<Rightarrow>
      (case between ''SELECT COUNT(*) FROM '' '';'' sql of
        Some name \<Rightarrow>
          if \<not> is_identifier name then (Inl syntax_error, db)
          else (case map_of db name of
                  None \<Rightarrow> (Inl no_such_table, db)
                | Some df \<Rightarrow> (Inr [[IntV (int (length (df_rows df)))]], db))
      | None \<Rightarrow>
      (case between ''SELECT MIN('' '';'' sql of
        Some rest \<Rightarrow> (ref_stats rest db, db)
      | None \<Rightarrow> (Inl syntax_error, db)))))"

text \<open>\<^verbatim>\<open>if_exists='replace'\<close>: the table of that name is dropped, then created anew.\<close>

definition ref_to_sql :: "string \<Rightarrow> dataframe \<Rightarrow> database \<Rightarrow> (exc + unit) \<times> database" where
  "ref_to_sql name df db = (Inr (), filter (\<lambda>(n, d). n \<noteq> name) db @ [(name, df)])"

definition sales :: dataframe where
  "sales =
     \<lparr>df_columns = [(''id'', Int64), (''amount'', Float64), (''region'', Object)],
      df_rows = [[IntV 1, RealV 10, TextV ''north''],
                 [IntV 2, Null, TextV ''south''],
                 [IntV 3, RealV (- 10), Null],
                 [IntV 4, Null, TextV ''north'']]\<rparr>"

definition metrics :: dataframe where
  "metrics =
     \<lparr>df_columns = [(''a'', Float64), (''label'', Object), (''b'', Float64), (''c'', Int64)],
      df_rows = [[RealV 1, TextV ''x'', RealV 2, IntV 5],
                 [RealV 2, TextV ''y'', RealV 3, IntV 5],
                 [RealV 3, TextV ''z'', RealV 7, IntV 5]]\<rparr>"

definition tab :: char where
  "tab = char_of (9 :: nat)"

definition ref_read_csv :: "string \<Rightarrow> char \<Rightarrow> string \<Rightarrow> exc + dataframe" where
  "ref_read_csv p sep enc =
     (if (p = ''/data/sales.csv'' \<or> p = ''/data/2023-sales.csv'') \<and> sep = CHR '',''
      then Inr sales
      else if (p = ''/data/legacy.csv'' \<and> sep = CHR '','') \<or> (p = ''/data/legacy.tsv'' \<and> sep = tab)
        then (if enc = ''gbk'' \<or> enc = ''gb2312'' then Inr sales else Inl UnicodeDecodeError)
      else Inl (LibraryError ''No such file or directory''))"

definition ref_env :: env where
  "ref_env =
     \<lparr>tempdir = ''/tmp'',
      uuid4 = (\<lambda>n. of_nat n),
      connect_error = (\<lambda>p. None),
      path_exists = (\<lambda>p. p \<in> {''/data/sales.csv'', ''/data/legacy.csv'', ''/data/legacy.tsv'',
                                 ''/data/notes.txt'', ''/data/2023-sales.csv''}),
      chardet_detect = (\<lambda>p. Inr (Some ''ascii'')),
      read_csv = ref_read_csv,
      read_excel = (\<lambda>p sheet. Inl (LibraryError ''No such file or directory'')),
      read_json = (\<lambda>p. Inl (LibraryError ''No such file or directory'')),
      read_parquet = (\<lambda>p. Inl (LibraryError ''No such file or directory'')),
      cursor_execute = ref_execute,
      read_sql_query = (\<lambda>sql db. (ref_select sql db, db)),
      to_sql = ref_to_sql,
      commit = (\<lambda>db. (Inr (), db)),
      memory_usage = (\<lambda>df. 0),
      describe = (\<lambda>df. PDict []),
      corr = (\<lambda>df i j. if i = j then Some 1 else if i + j = 1 then Some (71 / 100)
                         else if i + j = 2 then Some (7 / 10) else None),
      mkdir_parents = (\<lambda>p. None),
      write_frame = (\<lambda>fmt p df. None),
      float_str = (\<lambda>x. ''0.0'')\<rparr>"

definition ref_conn :: string where
  "ref_conn = ''/tmp/data_analysis_default_00000000.db''"

definition ref_world :: world where
  "ref_world =
     \<lparr>db_connections =
        [''default'' \<mapsto> \<lparr>connection = ref_conn, path = ref_conn, tables = {''sales''}\<rparr>],
      dbfiles = (\<lambda>p. if p = ref_conn then [(''sales'', sales), (''metrics'', metrics)] else []),
      uuid_draws = 1,
      sql_log = []\<rparr>"

definition empty_world :: world where
  "empty_world =
     \<lparr>db_connections = Map.empty, dbfiles = (\<lambda>p. []), uuid_draws = 0, sql_log = []\<rparr>"

text \<open>The store \<^verbatim>\<open>default\<close> registered and nothing imported yet.\<close>

definition blank_world :: world where
  "blank_world =
     \<lparr>db_connections =
        [''default'' \<mapsto> \<lparr>connection = ref_conn, path = ref_conn, tables = {}\<rparr>],
      dbfiles = (\<lambda>p. []),
      uuid_draws = 1,
      sql_log = []\<rparr>"

section \<open>The properties, in the words of the specification\<close>

text \<open>
  Text \<open>s\<close> begins with the keyword \<open>kw\<close> up to the case of its letters: in upper case
  it begins with \<open>kw\<close>. It contains \<open>kw\<close> up to case: in upper case it contains \<open>kw\<close>.
\<close>

definition begins_ci :: "string \<Rightarrow> string \<Rightarrow> bool" where
  "begins_ci kw s = prefix (codes kw) (upper s)"

definition contains_ci :: "string \<Rightarrow> string \<Rightarrow> bool" where
  "contains_ci kw s = sublist (codes kw) (upper s)"

definition select_or_with :: "string \<Rightarrow> bool" where
  "select_or_with query = (begins_ci ''SELECT'' (strip query) \<or> begins_ci ''WITH'' (strip query))"

text \<open>
  A structured result: its status is \<^verbatim>\<open>success\<close>, or it is \<^verbatim>\<open>error\<close> and a message
  comes with it.
\<close>

definition structured :: "result \<Rightarrow> bool" where
  "structured r =
     (status r = Some (PStr ''success'')
      \<or> (status r = Some (PStr ''error'') \<and> (\<exists>m. map_of r ''message'' = Some (PMsg m))))"

text \<open>
  The text the gateway is to execute: the trimmed query, with the limit clause appended
  when the query does not contain \<^verbatim>\<open>LIMIT\<close> in any case.
\<close>

definition limited_text :: "string \<Rightarrow> int \<Rightarrow> string" where
  "limited_text query limit =
     (if contains_ci ''LIMIT'' query then strip query
      else strip query @ '' LIMIT '' @ str_int limit)"

text \<open>
  The number of missing values of column \<open>j\<close> of a table, a section of the report of a
  result, and an entry of a section that is a dict.
\<close>

definition missing_count :: "dataframe \<Rightarrow> nat \<Rightarrow> nat" where
  "missing_count df j = count_list (column_cells df j) Null"

definition report_section :: "result \<Rightarrow> string \<Rightarrow> pyval option" where
  "report_section r key =
     (case map_of r ''report'' of Some (PDict rep) \<Rightarrow> map_of rep (PStr key) | _ \<Rightarrow> None)"

definition dict_entry :: "pyval option \<Rightarrow> pyval \<Rightarrow> pyval option" where
  "dict_entry section k = (case section of Some (PDict d) \<Rightarrow> map_of d k | _ \<Rightarrow> None)"

text \<open>
  The pairs of numeric columns that the correlation tier is to report: \<open>i < j\<close> with an
  absolute correlation above \<open>0.7\<close> (a NaN is not above it), each pair once, and the entry
  of a pair.
\<close>

definition exceeds :: "env \<Rightarrow> dataframe \<Rightarrow> nat \<Rightarrow> nat \<Rightarrow> bool" where
  "exceeds E df i j = (case corr E df i j of None \<Rightarrow> False | Some c \<Rightarrow> 7 / 10 < \<bar>c\<bar>)"

definition qualifying_pairs :: "env \<Rightarrow> dataframe \<Rightarrow> (nat \<times> nat) list" where
  "qualifying_pairs E df =
     filter (\<lambda>(i, j). i < j \<and> exceeds E df i j)
       (List.product [0 ..< length (df_columns df)] [0 ..< length (df_columns df)])"

definition pair_entry :: "env \<Rightarrow> dataframe \<Rightarrow> nat \<times> nat \<Rightarrow> pyval" where
  "pair_entry E df p =
     (case p of (i, j) \<Rightarrow>
        (case corr E df i j of
           None \<Rightarrow> PNone
         | Some c \<Rightarrow> corr_entry (column_names df ! i) (column_names df ! j) c))"


text \<open>
  The registry keeps its stores: every name registered in \<open>w\<close> is registered in \<open>w'\<close>
  with the same connection and path. Every registered path is one that
  \<^verbatim>\<open>get_or_create_db\<close> makes for the name it is registered under.
\<close>

definition keeps_connections :: "world \<Rightarrow> world \<Rightarrow> bool" where
  "keeps_connections w w' =
     (\<forall>n info. db_connections w n = Some info \<longrightarrow>
        (\<exists>info'. db_connections w' n = Some info'
           \<and> connection info' = connection info \<and> path info' = path info))"

definition registry_paths :: "env \<Rightarrow> world \<Rightarrow> bool" where
  "registry_paths E w =
     (\<forall>n info. db_connections w n = Some info \<longrightarrow> (\<exists>k. path info = db_path_of E n k))"

text \<open>
  The engine as the module expects it. \<^verbatim>\<open>to_sql\<close> with \<^verbatim>\<open>if_exists='replace'\<close> leaves
  one table of the given name, holding the given frame, and the other tables as they
  were; the catalog statement lists the names of the tables; the \<^verbatim>\<open>DROP\<close> statement of
  a name removes the table of that name; \<^verbatim>\<open>commit\<close> succeeds.
\<close>

definition named :: "string \<Rightarrow> database \<Rightarrow> database" where
  "named name db = filter (\<lambda>(n, d). n = name) db"

definition others :: "string \<Rightarrow> database \<Rightarrow> database" where
  "others name db = filter (\<lambda>(n, d). n \<noteq> name) db"

definition replaces_table :: "env \<Rightarrow> bool" where
  "replaces_table E =
     (\<forall>name df db db'. to_sql E name df db = (Inr (), db') \<longrightarrow>
        named name db' = [(name, df)] \<and> others name db' = others name db)"

definition lists_catalog :: "env \<Rightarrow> database \<Rightarrow> bool" where
  "lists_catalog E db =
     (cursor_execute E sqlite_master_query db = (Inr (map (\<lambda>(n, d). [TextV n]) db), db))"

definition drops_table :: "env \<Rightarrow> string \<Rightarrow> bool" where
  "drops_table E name =
     (\<forall>db. cursor_execute E (drop_statement E (TextV name)) db = (Inr [], others name db))"

definition commits :: "env \<Rightarrow> bool" where
  "commits E = (\<forall>db. commit E db = (Inr (), db))"

section \<open>Strings: the gate and the LIMIT test\<close>

lemma passes_gate_iff: "passes_gate query = select_or_with query"
  by (simp add: passes_gate_def select_or_with_def startswith_def begins_ci_def)

lemma upper_append: "upper (a @ b) = upper a @ upper b"
  by (simp add: upper_def)

lemma upper_char_space: "isspace c \<Longrightarrow> upper_char c = [of_char c]"
  by (auto simp: isspace_def upper_char_def Let_def)

lemma upper_spaces: "\<forall>c \<in> set a. isspace c \<Longrightarrow> upper a = codes a"
  by (induction a) (simp_all add: upper_def codes_def upper_char_space)

lemma spaces_not_in_limit:
  assumes "\<forall>c \<in> set a. isspace c"
  shows "set (codes a) \<inter> set (codes ''LIMIT'') = {}"
  using assms by (auto simp: codes_def isspace_def)

lemma sublist_skip_left:
  assumes "p \<noteq> []" and "set a \<inter> set p = {}" and "sublist p (a @ m)"
  shows "sublist p m"
  using assms(2,3)
proof (induction a)
  case Nil
  then show ?case by simp
next
  case (Cons x a)
  from Cons.prems(2) have "prefix p (x # a @ m) \<or> sublist p (a @ m)"
    by (simp add: sublist_Cons_right)
  moreover have "\<not> prefix p (x # a @ m)"
    using assms(1) Cons.prems(1) by (cases p) auto
  ultimately show ?case using Cons by simp
qed

lemma sublist_trim:
  assumes "p \<noteq> []" and "set a \<inter> set p = {}" and "set b \<inter> set p = {}"
  shows "sublist p (a @ m @ b) = sublist p m"
proof
  assume "sublist p (a @ m @ b)"
  then have "sublist p (m @ b)"
    using assms(1,2) by (rule sublist_skip_left[rotated 2])
  then have "sublist (rev p) (rev b @ rev m)"
    by (metis rev_append sublist_rev)
  then have "sublist (rev p) (rev m)"
    using assms(1,3) by (intro sublist_skip_left[of "rev p" "rev b" "rev m"]) simp_all
  then show "sublist p m" by simp
next
  assume "sublist p m"
  then show "sublist p (a @ m @ b)"
    by (metis sublist_appendI sublist_order.order_trans)
qed

lemma strip_decomp:
  obtains a b where "s = a @ strip s @ b" "\<forall>c \<in> set a. isspace c" "\<forall>c \<in> set b. isspace c"
proof -
  let ?a = "takeWhile isspace s" and ?t = "lstrip s"
  let ?b = "rev (takeWhile isspace (rev ?t))"
  have "rev (dropWhile isspace (rev ?t)) @ ?b
          = rev (takeWhile isspace (rev ?t) @ dropWhile isspace (rev ?t))"
    by (simp only: rev_append)
  also have "\<dots> = ?t"
    by (simp only: takeWhile_dropWhile_id rev_rev_ident)
  finally have t: "?t = strip s @ ?b"
    by (simp only: strip_def rstrip_def)
  have "s = ?a @ ?t" by (simp add: lstrip_def)
  with t have "s = ?a @ strip s @ ?b" by simp
  moreover have "\<forall>c \<in> set ?a. isspace c" by (auto dest: set_takeWhileD)
  moreover have "\<forall>c \<in> set ?b. isspace c" by (auto dest: set_takeWhileD)
  ultimately show ?thesis using that by blast
qed

lemma limit_check_strip: "str_in ''LIMIT'' (upper (strip q)) = str_in ''LIMIT'' (upper q)"
proof -
  obtain a b where q: "q = a @ strip q @ b"
    and a: "\<forall>c \<in> set a. isspace c" and b: "\<forall>c \<in> set b. isspace c"
    by (rule strip_decomp)
  have "upper q = upper (a @ strip q @ b)" using q by simp
  then have "upper q = codes a @ upper (strip q) @ codes b"
    by (simp add: upper_append upper_spaces[OF a] upper_spaces[OF b])
  moreover have "codes ''LIMIT'' \<noteq> []" by (simp add: codes_def)
  ultimately show ?thesis
    using spaces_not_in_limit[OF a] spaces_not_in_limit[OF b]
    by (simp add: str_in_def sublist_trim)
qed

lemma str_in_upper: "str_in kw (upper s) = contains_ci kw s"
  by (simp add: str_in_def contains_ci_def)

lemma effective_query_eq:
  "effective_query query limit =
     (if contains_ci ''LIMIT'' query then strip query else strip query @ '' LIMIT '' @ str_int limit)"
  using limit_check_strip[of query] by (simp add: effective_query_def str_in_upper)

lemma conn_read_sql_query_log:
  "sql_log (snd (conn_read_sql_query E conn sql w)) = sql_log w @ [(conn, sql)]"
  by (simp add: conn_read_sql_query_def log_call_def split: prod.splits)

lemma conn_read_sql_query_fst:
  "fst (conn_read_sql_query E conn sql w) = fst (read_sql_query E sql (dbfiles w conn))"
  by (simp add: conn_read_sql_query_def split: prod.splits)

text \<open>
  Claim C1. On a known store, a query whose trimmed text does not begin with
  \<^verbatim>\<open>SELECT\<close> or \<^verbatim>\<open>WITH\<close>, in any case of the letters, gets the error result
  and the state is left as it was: no statement reaches the engine. A query whose
  trimmed text does begin with one of them passes the gate and is executed: exactly one
  statement is submitted, on the store's connection, and the result is the engine's
  (success when it returns a table, the engine's error when it raises).
\<close>

theorem execute_sql_safety_gate:
  assumes "db_connections w db_name = Some info"
  shows "if select_or_with query
         then sql_log (snd (execute_sql E query db_name limit w))
                = sql_log w @ [(connection info, effective_query query limit)]
              \<and> (case fst (read_sql_query E (effective_query query limit)
                               (dbfiles w (connection info))) of
                   Inl e \<Rightarrow> fst (execute_sql E query db_name limit w) = error_result (SqlFailed e)
                 | Inr df \<Rightarrow> status (fst (execute_sql E query db_name limit w))
                             = Some (PStr ''success''))
         else execute_sql E query db_name limit w = (error_result OnlySelectWith, w)"
proof (cases "select_or_with query")
  case False
  then show ?thesis using assms by (simp add: execute_sql_def passes_gate_iff)
next
  case True
  obtain r w' where run: "conn_read_sql_query E (connection info) (effective_query query limit) w = (r, w')"
    by (cases "conn_read_sql_query E (connection info) (effective_query query limit) w")
  have log: "sql_log w' = sql_log w @ [(connection info, effective_query query limit)]"
    using conn_read_sql_query_log[of E "connection info" "effective_query query limit" w] run by simp
  have r: "r = fst (read_sql_query E (effective_query query limit) (dbfiles w (connection info)))"
    using conn_read_sql_query_fst[of E "connection info" "effective_query query limit" w] run by simp
  show ?thesis
  proof (cases "fst (read_sql_query E (effective_query query limit) (dbfiles w (connection info)))")
    case (Inl e)
    with True assms run log r show ?thesis
      by (simp add: execute_sql_def passes_gate_iff)
  next
    case (Inr df)
    with True assms run log r show ?thesis
      by (simp add: execute_sql_def passes_gate_iff status_def)
  qed
qed

theorem execute_sql_safety_gate_witness:
  "db_connections ref_world ''default'' = Some \<lparr>connection = ref_conn, path = ref_conn, tables = {''sales''}\<rparr>
   \<and> \<not> select_or_with ''DROP TABLE sales''
   \<and> execute_sql ref_env ''DROP TABLE sales'' ''default'' 5 ref_world = (error_result OnlySelectWith, ref_world)
   \<and> select_or_with ''  with x as (select 1) select * from x''
   \<and> select_or_with '' Select * from sales ''
   \<and> sql_log (snd (execute_sql ref_env '' Select * from sales '' ''default'' 5 ref_world))
        = [(ref_conn, ''Select * from sales LIMIT 5'')]
   \<and> status (fst (execute_sql ref_env '' Select * from sales '' ''default'' 5 ref_world)) = Some (PStr ''success'')
   \<and> select_or_with (char_of (160 :: nat) # ''SELECT * FROM sales'')
   \<and> sql_log (snd (execute_sql ref_env (char_of (160 :: nat) # ''SELECT * FROM sales'') ''default'' 5 ref_world))
        = [(ref_conn, ''SELECT * FROM sales LIMIT 5'')]"
proof -
  let ?info = "\<lparr>connection = ref_conn, path = ref_conn, tables = {''sales''}\<rparr>"
  have known: "db_connections ref_world ''default'' = Some ?info"
    by (simp add: ref_world_def)
  have no: "\<not> select_or_with ''DROP TABLE sales''" by code_simp
  have w: "select_or_with ''  with x as (select 1) select * from x''" by code_simp
  have yes: "select_or_with '' Select * from sales ''" by code_simp
  have nbsp: "select_or_with (char_of (160 :: nat) # ''SELECT * FROM sales'')" by code_simp
  have q: "effective_query '' Select * from sales '' 5 = ''Select * from sales LIMIT 5''" by code_simp
  have q': "effective_query (char_of (160 :: nat) # ''SELECT * FROM sales'') 5
              = ''SELECT * FROM sales LIMIT 5''"
    by code_simp
  have res: "fst (read_sql_query ref_env ''Select * from sales LIMIT 5'' (dbfiles ref_world ref_conn)) = Inr sales"
    by code_simp
  have l: "sql_log ref_world = []" by (simp add: ref_world_def)
  have a: "execute_sql ref_env ''DROP TABLE sales'' ''default'' 5 ref_world
             = (error_result OnlySelectWith, ref_world)"
    using execute_sql_safety_gate[OF known, of "''DROP TABLE sales''" ref_env 5] no by simp
  have b: "sql_log (snd (execute_sql ref_env '' Select * from sales '' ''default'' 5 ref_world))
             = [(ref_conn, ''Select * from sales LIMIT 5'')]
           \<and> status (fst (execute_sql ref_env '' Select * from sales '' ''default'' 5 ref_world))
             = Some (PStr ''success'')"
    using execute_sql_safety_gate[OF known, of "'' Select * from sales ''" ref_env 5] yes
    by (simp add: q res l)
  have c: "sql_log (snd (execute_sql ref_env (char_of (160 :: nat) # ''SELECT * FROM sales'')
                           ''default'' 5 ref_world))
             = [(ref_conn, ''SELECT * FROM sales LIMIT 5'')]"
    using execute_sql_safety_gate[OF known, of "char_of (160 :: nat) # ''SELECT * FROM sales''" ref_env 5]
      nbsp
    by (simp add: q' l)
  show ?thesis
    using known no w yes nbsp a b c by simp
qed

section \<open>\<^verbatim>\<open>execute_sql\<close>: the limit clause\<close>

lemma effective_query_limited: "effective_query query limit = limited_text query limit"
  by (simp add: effective_query_eq limited_text_def)

lemma conn_read_sql_query_cases:
  obtains e w' where "conn_read_sql_query E conn sql w = (Inl e, w')"
      "fst (read_sql_query E sql (dbfiles w conn)) = Inl e"
      "sql_log w' = sql_log w @ [(conn, sql)]"
  | df w' where "conn_read_sql_query E conn sql w = (Inr df, w')"
      "fst (read_sql_query E sql (dbfiles w conn)) = Inr df"
      "sql_log w' = sql_log w @ [(conn, sql)]"
proof (cases "read_sql_query E sql (dbfiles w conn)")
  case (Pair r db')
  then show ?thesis
    using that by (cases r) (simp_all add: conn_read_sql_query_def log_call_def)
qed

text \<open>
  Claim C2, as amended. For a query that \<^verbatim>\<open>execute_sql\<close> accepts on a known store, the
  text executed is the trimmed query: with \<^verbatim>\<open> LIMIT \<close> and the limit appended when the
  query does not contain \<^verbatim>\<open>LIMIT\<close> in any case, and with nothing appended when it does
  (the caller's own clause is not overridden). That text is the \<^verbatim>\<open>query\<close> field of a
  successful result, and \<^verbatim>\<open>row_count\<close> is the number of rows the engine returned for it;
  the operation itself bounds no row count.
\<close>

theorem execute_sql_auto_limit:
  assumes "db_connections w db_name = Some info" and "select_or_with query"
  shows "sql_log (snd (execute_sql E query db_name limit w))
           = sql_log w @ [(connection info, limited_text query limit)]
         \<and> (case fst (read_sql_query E (limited_text query limit) (dbfiles w (connection info))) of
               Inl e \<Rightarrow> fst (execute_sql E query db_name limit w) = error_result (SqlFailed e)
             | Inr df \<Rightarrow>
                 map_of (fst (execute_sql E query db_name limit w)) ''query''
                   = Some (PStr (limited_text query limit))
                 \<and> map_of (fst (execute_sql E query db_name limit w)) ''row_count''
                   = Some (PInt (int (length (df_rows df)))))"
proof (cases rule: conn_read_sql_query_cases[of E "connection info" "limited_text query limit" w])
  case (1 e w')
  with assms show ?thesis
    by (simp add: execute_sql_def passes_gate_iff effective_query_limited)
next
  case (2 df w')
  with assms show ?thesis
    by (simp add: execute_sql_def passes_gate_iff effective_query_limited)
qed

theorem execute_sql_auto_limit_witness:
  "db_connections ref_world ''default''
     = Some \<lparr>connection = ref_conn, path = ref_conn, tables = {''sales''}\<rparr>
   \<and> select_or_with '' select * from sales ''
   \<and> sql_log (snd (execute_sql ref_env '' select * from sales '' ''default'' 2 ref_world))
        = [(ref_conn, ''select * from sales LIMIT 2'')]
   \<and> map_of (fst (execute_sql ref_env '' select * from sales '' ''default'' 2 ref_world)) ''row_count''
        = Some (PInt 2)
   \<and> select_or_with ''SELECT * FROM sales limit 1''
   \<and> sql_log (snd (execute_sql ref_env ''SELECT * FROM sales limit 1'' ''default'' 2 ref_world))
        = [(ref_conn, ''SELECT * FROM sales limit 1'')]
   \<and> map_of (fst (execute_sql ref_env ''SELECT * FROM sales limit 1'' ''default'' 2 ref_world)) ''row_count''
        = Some (PInt 1)"
proof -
  let ?info = "\<lparr>connection = ref_conn, path = ref_conn, tables = {''sales''}\<rparr>"
  have known: "db_connections ref_world ''default'' = Some ?info"
    by (simp add: ref_world_def)
  have g1: "select_or_with '' select * from sales ''" by code_simp
  have g2: "select_or_with ''SELECT * FROM sales limit 1''" by code_simp
  have q1: "limited_text '' select * from sales '' 2 = ''select * from sales LIMIT 2''" by code_simp
  have q2: "limited_text ''SELECT * FROM sales limit 1'' 2 = ''SELECT * FROM sales limit 1''" by code_simp
  have r1: "fst (read_sql_query ref_env ''select * from sales LIMIT 2'' (dbfiles ref_world ref_conn))
              = Inr (sales\<lparr>df_rows := take 2 (df_rows sales)\<rparr>)"
    by code_simp
  have r2: "fst (read_sql_query ref_env ''SELECT * FROM sales limit 1'' (dbfiles ref_world ref_conn))
              = Inr (sales\<lparr>df_rows := take 1 (df_rows sales)\<rparr>)"
    by code_simp
  have l: "sql_log ref_world = []" by (simp add: ref_world_def)
  have n: "length (df_rows sales) = 4" by (simp add: sales_def)
  show ?thesis
    using known g1 g2
      execute_sql_auto_limit[OF known g1, of ref_env 2]
      execute_sql_auto_limit[OF known g2, of ref_env 2]
    by (simp add: q1 q2 r1 r2 l n)
qed

text \<open>
  Claim C2 as stated fails at three queries, each accepted and without \<^verbatim>\<open>LIMIT\<close>. A
  query with a leading blank is executed without the blank, not as the original text with
  the clause appended. With the limit \<open>-1\<close> the clause appended is \<^verbatim>\<open>LIMIT -1\<close>, which
  SQLite reads as no limit: all four rows are returned, more than the limit. With a
  trailing \<^verbatim>\<open>--\<close> comment the clause is appended inside the comment: with the limit 2
  all four rows are returned.
\<close>

theorem execute_sql_auto_limit_counterexample:
  "select_or_with '' SELECT * FROM sales''
   \<and> \<not> contains_ci ''LIMIT'' '' SELECT * FROM sales''
   \<and> sql_log (snd (execute_sql ref_env '' SELECT * FROM sales'' ''default'' 2 ref_world))
        \<noteq> [(ref_conn, '' SELECT * FROM sales'' @ '' LIMIT 2'')]
   \<and> sql_log (snd (execute_sql ref_env '' SELECT * FROM sales'' ''default'' 2 ref_world))
        = [(ref_conn, ''SELECT * FROM sales LIMIT 2'')]
   \<and> select_or_with ''SELECT * FROM sales''
   \<and> \<not> contains_ci ''LIMIT'' ''SELECT * FROM sales''
   \<and> map_of (fst (execute_sql ref_env ''SELECT * FROM sales'' ''default'' (- 1) ref_world)) ''query''
        = Some (PStr ''SELECT * FROM sales LIMIT -1'')
   \<and> map_of (fst (execute_sql ref_env ''SELECT * FROM sales'' ''default'' (- 1) ref_world)) ''row_count''
        = Some (PInt 4)
   \<and> select_or_with ''SELECT * FROM sales -- all''
   \<and> \<not> contains_ci ''LIMIT'' ''SELECT * FROM sales -- all''
   \<and> map_of (fst (execute_sql ref_env ''SELECT * FROM sales -- all'' ''default'' 2 ref_world)) ''query''
        = Some (PStr ''SELECT * FROM sales -- all LIMIT 2'')
   \<and> map_of (fst (execute_sql ref_env ''SELECT * FROM sales -- all'' ''default'' 2 ref_world)) ''row_count''
        = Some (PInt 4)"
  by code_simp

section \<open>Every operation returns a structured result\<close>

lemma structured_error [simp]: "structured (error_result m)"
  by (simp add: structured_def error_result_def status_def)

lemma structured_success [simp]: "structured ((''status'', PStr ''success'') # r)"
  by (simp add: structured_def status_def)

lemma import_file_structured:
  "structured (fst (import_file E file_path table_name db_name sheet_name encoding w))"
  by (simp add: import_file_def Let_def split: option.split sum.split prod.split)

lemma list_tables_structured: "structured (fst (list_tables E db_name w))"
  by (simp add: list_tables_def split: option.split sum.split prod.split)

lemma describe_table_structured: "structured (fst (describe_table E table_name db_name w))"
  by (simp add: describe_table_def split: option.split sum.split prod.split)

lemma execute_sql_structured: "structured (fst (execute_sql E query db_name limit w))"
  by (simp add: execute_sql_def split: option.split sum.split prod.split)

lemma generate_analysis_report_structured:
  "structured (fst (generate_analysis_report E table_name db_name analysis_type w))"
  by (simp add: generate_analysis_report_def split: option.split sum.split prod.split)

lemma write_result_structured: "structured (fst (write_result E fmt format output_path df w))"
  by (simp add: write_result_def split: option.split)

lemma export_query_result_structured:
  "structured (fst (export_query_result E query output_path db_name format w))"
  by (simp add: export_query_result_def write_result_structured
      split: option.split sum.split prod.split)

lemma clean_database_structured: "structured (fst (clean_database E db_name w))"
  by (simp add: clean_database_def split: option.split sum.split prod.split)

text \<open>
  Claim C5. Each of the seven operations, on every input, environment and state, returns
  a structured result: its \<^verbatim>\<open>status\<close> is \<^verbatim>\<open>success\<close> or \<^verbatim>\<open>error\<close>, and an error result
  carries a message. Every exception of a library call is a branch of the operation that
  ends in such a result: none escapes.
\<close>

theorem operations_return_structured_results:
  "structured (fst (import_file E file_path table_name db_name sheet_name encoding w))
   \<and> structured (fst (list_tables E db_name w))
   \<and> structured (fst (describe_table E table db_name w))
   \<and> structured (fst (execute_sql E query db_name limit w))
   \<and> structured (fst (generate_analysis_report E table db_name analysis_type w))
   \<and> structured (fst (export_query_result E query output_path db_name format w))
   \<and> structured (fst (clean_database E db_name w))"
  by (simp only: import_file_structured list_tables_structured describe_table_structured
      execute_sql_structured generate_analysis_report_structured
      export_query_result_structured clean_database_structured simp_thms)

section \<open>\<^verbatim>\<open>import_file\<close>: the encoding fallback\<close>

lemma try_encodings_first:
  "try_encodings E p encs =
     (case List.find (\<lambda>enc. \<not> isl (read_csv E p CHR '','' enc)) encs of
        None \<Rightarrow> Inl EncodingUndetermined
      | Some enc \<Rightarrow> read_csv E p CHR '','' enc)"
  by (induction encs) (auto split: sum.splits)

lemma load_csv_fallback:
  assumes "read_csv E p CHR '','' (or_else encoding (detect_file_encoding E p)) = Inl UnicodeDecodeError"
  shows "load_csv E p encoding =
     (case List.find (\<lambda>enc. \<not> isl (read_csv E p CHR '','' enc)) [''utf-8'', ''gbk'', ''gb2312'', ''latin-1''] of
        None \<Rightarrow> Inl EncodingUndetermined
      | Some enc \<Rightarrow> read_csv E p CHR '','' enc)"
  using assms
  by (simp only: load_csv_def Let_def try_encodings_first fallback_encodings_def sum.case exc.case)

lemma import_tsv_no_retry:
  assumes "path_exists E p" and "lower (path_suffix p) = ''.tsv''"
    and "read_csv E p tab (or_else encoding (detect_file_encoding E p)) = Inl e"
  shows "import_file E p table_name db_name sheet_name encoding w = (error_result (ImportFailed e), w)"
  using assms by (simp add: import_file_def load_by_extension_def load_tsv_def tab_def Let_def)

text \<open>
  Claim C4 at a tab-separated file. The detector proposes \<^verbatim>\<open>ascii\<close>, decoding with it
  fails, and \<^verbatim>\<open>gbk\<close>, the second encoding of the fallback list, would load the file; yet
  \<^verbatim>\<open>import_file\<close> reports the decoding error without trying any other encoding. The same
  content with the extension \<^verbatim>\<open>.csv\<close> is imported through the fallback list.
\<close>

theorem import_tsv_without_fallback:
  "path_exists ref_env ''/data/legacy.tsv''
   \<and> lower (path_suffix ''/data/legacy.tsv'') = ''.tsv''
   \<and> detect_file_encoding ref_env ''/data/legacy.tsv'' = ''ascii''
   \<and> read_csv ref_env ''/data/legacy.tsv'' tab ''ascii'' = Inl UnicodeDecodeError
   \<and> read_csv ref_env ''/data/legacy.tsv'' tab ''gbk'' = Inr sales
   \<and> fst (import_file ref_env ''/data/legacy.tsv'' None ''default'' None None ref_world)
        = error_result (ImportFailed UnicodeDecodeError)
   \<and> read_csv ref_env ''/data/legacy.csv'' CHR '','' ''ascii'' = Inl UnicodeDecodeError
   \<and> status (fst (import_file ref_env ''/data/legacy.csv'' None ''default'' None None ref_world))
        = Some (PStr ''success'')"
  by code_simp

section \<open>\<^verbatim>\<open>generate_analysis_report\<close>: missing values\<close>

lemma map_of_fold_update:
  "map_of (fold (\<lambda>(k, v) d. AList.update k v d) ps acc) = map_of acc ++ map_of (rev ps)"
proof (induction ps arbitrary: acc)
  case Nil
  then show ?case by simp
next
  case (Cons p ps)
  obtain k v where p: "p = (k, v)" by (cases p)
  show ?case
    by (simp add: Cons p update_conv' map_add_def fun_eq_iff split: option.splits)
qed

lemma map_of_dict_of: "map_of (dict_of ps) = map_of (rev ps)"
  by (simp add: dict_of_def map_of_fold_update)

lemma map_of_dict_of_distinct:
  assumes "distinct (map fst ps)"
  shows "map_of (dict_of ps) = map_of ps"
proof -
  have "distinct (map fst (rev ps))" using assms by (simp add: rev_map[symmetric])
  then have "map_of (rev ps) = map_of ps"
    using assms by (simp add: map_of_inject_set)
  then show ?thesis by (simp add: map_of_dict_of)
qed

lemma length_filter_count: "length (filter (\<lambda>c. c = y) xs) = count_list xs y"
  by (induction xs) auto

lemma null_count_missing: "null_count df j = missing_count df j"
  by (simp add: null_count_def missing_count_def length_filter_count)

lemma missing_data_nth:
  "missing_data df =
     map (\<lambda>j. (column_names df ! j, missing_count df j)) [0 ..< length (df_columns df)]"
  by (rule nth_equalityI)
    (simp_all add: missing_data_def nth_enumerate_eq column_names_def null_count_missing
      split: prod.splits)

lemma map_fst_missing_data: "map fst (missing_data df) = column_names df"
  by (rule nth_equalityI) (simp_all add: missing_data_nth column_names_def)

lemma map_of_missing_data:
  assumes "distinct (column_names df)" and "j < length (df_columns df)"
  shows "map_of (missing_data df) (column_names df ! j) = Some (missing_count df j)"
proof -
  have "(column_names df ! j, missing_count df j) \<in> set (missing_data df)"
    using assms(2) by (auto simp: missing_data_nth)
  then show ?thesis
    using assms(1) by (simp add: map_fst_missing_data)
qed

lemma sum_list_pos_iff: "(0 < sum_list (map f xs)) = (\<exists>x \<in> set xs. 0 < (f x :: nat))"
  by (induction xs) auto

lemma sum_missing_data:
  "(0 < sum_list (map snd (missing_data df)))
     = (\<exists>j < length (df_columns df). 0 < missing_count df j)"
proof -
  have "map snd (missing_data df) = map (missing_count df) [0 ..< length (df_columns df)]"
    by (simp add: missing_data_nth comp_def)
  then show ?thesis
    by (simp add: sum_list_pos_iff Bex_def)
qed

lemma map_of_reported:
  assumes "distinct (map fst xs)"
  shows "map_of (map (\<lambda>(n, k). (PStr n, PInt (int k))) (filter (\<lambda>(n, k). 0 < k) xs)) (PStr m)
           = (case map_of xs m of
                None \<Rightarrow> None
              | Some k \<Rightarrow> if 0 < k then Some (PInt (int k)) else None)"
  using assms
proof (induction xs)
  case Nil
  then show ?case by simp
next
  case (Cons x xs)
  obtain n k where x: "x = (n, k)" by (cases x)
  have none: "map_of xs n = None" using Cons.prems x by (simp add: map_of_eq_None_iff)
  show ?case
    using Cons x none by (auto split: option.splits)
qed

lemma reported_keys:
  "map_of (map (\<lambda>(n, k). (PStr n, PInt (int k))) (filter (\<lambda>(n, k). 0 < k) xs)) key = Some v
     \<Longrightarrow> key \<in> PStr ` fst ` set xs"
  by (induction xs) (auto split: if_splits)

lemma distinct_reported:
  assumes "distinct (map fst xs)"
  shows "distinct (map fst (map (\<lambda>(n, k). (PStr n, PInt (int k))) (filter (\<lambda>(n, k). 0 < k) xs)))"
proof -
  have "map fst (map (\<lambda>(n, k). (PStr n, PInt (int k))) (filter (\<lambda>(n, k). 0 < k) xs))
          = map PStr (map fst (filter (\<lambda>(n, k). 0 < k) xs))"
    by (induction xs) auto
  moreover have "distinct (map fst (filter (\<lambda>(n, k). 0 < k) xs))"
    using assms by (rule distinct_map_filter)
  ultimately show ?thesis
    by (auto simp: distinct_map inj_on_def)
qed

lemma report_of_missing_values:
  "map_of (report_of E table_name analysis_type df) (PStr ''missing_values'')
     = (if analysis_type \<in> set basic_tiers
        then map_of (missing_values_section df) (PStr ''missing_values'') else None)"
  by (simp add: report_of_def basic_sections_def statistical_sections_def
      correlation_sections_def missing_values_section_def map_add_def Let_def)


lemma missing_values_section_lookup:
  "map_of (missing_values_section df) (PStr ''missing_values'')
     = (if \<exists>j < length (df_columns df). 0 < missing_count df j
        then Some (PDict (dict_of (map (\<lambda>(n, k). (PStr n, PInt (int k)))
                                       (filter (\<lambda>(n, k). 0 < k) (missing_data df)))))
        else None)"
  by (simp only: missing_values_section_def sum_missing_data) simp

text \<open>
  Claim C8. In the report of a table, at any of the three tiers, the section
  \<^verbatim>\<open>missing_values\<close> is absent exactly when no column has a missing value; when present
  it maps each column with at least one missing value to the number of its missing
  values, has no entry for a column without missing values, and has no other key. The
  table is the one the engine returns for \<^verbatim>\<open>SELECT * FROM table\<close>; its column names are
  distinct, as those of a SQLite table are.
\<close>

theorem missing_values_reported_exactly:
  assumes known: "db_connections w db_name = Some info"
    and tier: "analysis_type \<in> {''basic'', ''statistical'', ''correlation''}"
    and table: "fst (read_sql_query E (''SELECT * FROM '' @ table_name) (dbfiles w (connection info)))
                  = Inr df"
    and names: "distinct (column_names df)"
    and r: "r = fst (generate_analysis_report E table_name db_name analysis_type w)"
  shows "((report_section r ''missing_values'' = None)
            = (\<forall>j < length (df_columns df). missing_count df j = 0))
       \<and> (\<forall>j < length (df_columns df).
             dict_entry (report_section r ''missing_values'') (PStr (column_names df ! j))
               = (if 0 < missing_count df j then Some (PInt (int (missing_count df j))) else None))
       \<and> (\<forall>k v. dict_entry (report_section r ''missing_values'') k = Some v
             \<longrightarrow> k \<in> PStr ` set (column_names df))"
proof -
  let ?ps = "map (\<lambda>(n, k). (PStr n, PInt (int k))) (filter (\<lambda>(n, k). 0 < k) (missing_data df))"
  have dist: "distinct (map fst (missing_data df))"
    using names by (simp add: map_fst_missing_data)
  have rep: "map_of r ''report'' = Some (PDict (report_of E table_name analysis_type df))"
  proof (cases rule: conn_read_sql_query_cases[of E "connection info" "''SELECT * FROM '' @ table_name" w])
    case (1 e w')
    with table show ?thesis by simp
  next
    case (2 df' w')
    with table known r show ?thesis by (simp add: generate_analysis_report_def)
  qed
  have tier': "analysis_type \<in> set basic_tiers"
    using tier by (auto simp: basic_tiers_def)
  have sec: "report_section r ''missing_values''
               = (if \<exists>j < length (df_columns df). 0 < missing_count df j
                  then Some (PDict (dict_of ?ps)) else None)"
    by (simp only: report_section_def rep option.case pyval.case report_of_missing_values
        tier' if_True missing_values_section_lookup)
  have look: "map_of (dict_of ?ps) = map_of ?ps"
    using dist by (intro map_of_dict_of_distinct distinct_reported)
  have entry: "map_of ?ps (PStr (column_names df ! j))
                 = (if 0 < missing_count df j then Some (PInt (int (missing_count df j))) else None)"
    if "j < length (df_columns df)" for j
    using map_of_reported[OF dist, of "column_names df ! j"] map_of_missing_data[OF names that]
    by simp
  have keys: "k \<in> PStr ` set (column_names df)" if "map_of ?ps k = Some v" for k v
    using reported_keys[OF that] by (simp add: map_fst_missing_data[symmetric])
  show ?thesis
  proof (cases "\<exists>j < length (df_columns df). 0 < missing_count df j")
    case True
    then show ?thesis
      using entry keys by (auto simp: sec dict_entry_def look)
  next
    case False
    then show ?thesis
      by (auto simp: sec dict_entry_def)
  qed
qed

theorem missing_values_reported_exactly_witness:
  "db_connections ref_world ''default''
     = Some \<lparr>connection = ref_conn, path = ref_conn, tables = {''sales''}\<rparr>
   \<and> fst (read_sql_query ref_env (''SELECT * FROM '' @ ''sales'') (dbfiles ref_world ref_conn)) = Inr sales
   \<and> distinct (column_names sales)
   \<and> missing_count sales 0 = 0 \<and> missing_count sales 1 = 2 \<and> missing_count sales 2 = 1
   \<and> report_section (fst (generate_analysis_report ref_env ''sales'' ''default'' ''basic'' ref_world))
        ''missing_values'' \<noteq> None
   \<and> dict_entry (report_section (fst (generate_analysis_report ref_env ''sales'' ''default'' ''basic'' ref_world))
        ''missing_values'') (PStr ''id'') = None
   \<and> dict_entry (report_section (fst (generate_analysis_report ref_env ''sales'' ''default'' ''basic'' ref_world))
        ''missing_values'') (PStr ''amount'') = Some (PInt 2)
   \<and> dict_entry (report_section (fst (generate_analysis_report ref_env ''sales'' ''default'' ''basic'' ref_world))
        ''missing_values'') (PStr ''region'') = Some (PInt 1)"
proof -
  let ?info = "\<lparr>connection = ref_conn, path = ref_conn, tables = {''sales''}\<rparr>"
  let ?r = "fst (generate_analysis_report ref_env ''sales'' ''default'' ''basic'' ref_world)"
  have known: "db_connections ref_world ''default'' = Some ?info"
    by (simp add: ref_world_def)
  have tier: "''basic'' \<in> {''basic'', ''statistical'', ''correlation''}" by simp
  have table: "fst (read_sql_query ref_env (''SELECT * FROM '' @ ''sales'')
                      (dbfiles ref_world (connection ?info))) = Inr sales"
    by code_simp
  have names: "distinct (column_names sales)" by code_simp
  have cols: "column_names sales = [''id'', ''amount'', ''region'']" by code_simp
  have len: "length (df_columns sales) = 3" by code_simp
  have m0: "missing_count sales 0 = 0" by code_simp
  have m1: "missing_count sales 1 = 2" by code_simp
  have m1': "missing_count sales (Suc 0) = 2" using m1 by simp
  have m2: "missing_count sales 2 = 1" by code_simp
  note inst = missing_values_reported_exactly[OF known tier table names refl]
  have a: "(report_section ?r ''missing_values'' = None)
             = (\<forall>j < length (df_columns sales). missing_count sales j = 0)"
    using inst by blast
  have b: "\<forall>j < length (df_columns sales).
             dict_entry (report_section ?r ''missing_values'') (PStr (column_names sales ! j))
               = (if 0 < missing_count sales j then Some (PInt (int (missing_count sales j))) else None)"
    using inst by blast
  have "report_section ?r ''missing_values'' \<noteq> None"
    using a m1 len by (metis one_less_numeral_iff semiring_norm(77) zero_neq_numeral)
  moreover have "dict_entry (report_section ?r ''missing_values'') (PStr ''id'') = None"
    using b[rule_format, of 0] by (simp add: len cols m0)
  moreover have "dict_entry (report_section ?r ''missing_values'') (PStr ''amount'') = Some (PInt 2)"
    using b[rule_format, of 1] by (simp add: len cols m1')
  moreover have "dict_entry (report_section ?r ''missing_values'') (PStr ''region'') = Some (PInt 1)"
    using b[rule_format, of 2] by (simp add: len cols m2)
  ultimately show ?thesis
    using known table names m0 m1 m2 by simp
qed

section \<open>\<^verbatim>\<open>generate_analysis_report\<close>: high correlations\<close>

lemma high_corr_row:
  "concat (map (\<lambda>j. high_corr_at E df i j) js)
     = map (\<lambda>j. pair_entry E df (i, j)) (filter (exceeds E df i) js)"
  by (induction js) (auto simp: high_corr_at_def exceeds_def pair_entry_def split: option.splits)

lemma filter_above:
  "filter (\<lambda>j. i < j \<and> Q j) [0 ..< n] = filter Q [i + 1 ..< n]"
proof (cases "i + 1 \<le> n")
  case True
  then have "[0 ..< n] = [0 ..< i + 1] @ [i + 1 ..< n]"
    by (metis le0 upt_add_eq_append le_add_diff_inverse)
  moreover have "filter (\<lambda>j. i < j \<and> Q j) [0 ..< i + 1] = []"
    by (auto simp: filter_empty_conv)
  moreover have "filter (\<lambda>j. i < j \<and> Q j) [i + 1 ..< n] = filter Q [i + 1 ..< n]"
    by (rule filter_cong) auto
  ultimately show ?thesis by simp
next
  case False
  then show ?thesis by (auto simp: filter_empty_conv)
qed

lemma qualifying_row:
  "filter (\<lambda>(i', j). i' < j \<and> exceeds E df i' j) (map (Pair i) [0 ..< n])
     = map (Pair i) (filter (exceeds E df i) [i + 1 ..< n])"
  by (simp add: filter_map comp_def filter_above)

lemma high_corr_pairs_spec:
  "high_corr_pairs E df = map (pair_entry E df) (qualifying_pairs E df)"
  by (simp add: high_corr_pairs_def qualifying_pairs_def List.product_concat_map Let_def
      filter_concat map_concat comp_def qualifying_row high_corr_row)

lemma distinct_qualifying_pairs: "distinct (qualifying_pairs E df)"
  by (simp add: qualifying_pairs_def distinct_product)

lemma set_qualifying_pairs:
  "set (qualifying_pairs E df)
     = {(i, j). i < j \<and> j < length (df_columns df) \<and> exceeds E df i j}"
  by (auto simp: qualifying_pairs_def)

lemma round_half_even_close: "\<bar>of_int (round_half_even x) - x\<bar> \<le> 1 / 2"
proof -
  have "of_int \<lfloor>x\<rfloor> \<le> x" "x < of_int \<lfloor>x\<rfloor> + 1" by linarith+
  then show ?thesis
    by (auto simp: round_half_even_def Let_def)
qed

lemma round_to_close: "\<bar>round_to n x - x\<bar> \<le> 1 / (2 * 10 ^ n)"
proof -
  have "round_to n x - x = (of_int (round_half_even (x * 10 ^ n)) - x * 10 ^ n) / 10 ^ n"
    by (simp add: round_to_def field_simps)
  then have "\<bar>round_to n x - x\<bar> = \<bar>of_int (round_half_even (x * 10 ^ n)) - x * 10 ^ n\<bar> / 10 ^ n"
    by (simp add: abs_divide)
  also have "\<dots> \<le> (1 / 2) / 10 ^ n"
    by (intro divide_right_mono round_half_even_close) simp
  finally show ?thesis by simp
qed

lemma report_of_high_correlations:
  "map_of (report_of E table_name analysis_type df) (PStr ''high_correlations'')
     = (if analysis_type = ''correlation''
        then map_of (correlation_sections E df) (PStr ''high_correlations'') else None)"
  by (simp add: report_of_def basic_sections_def statistical_sections_def
      missing_values_section_def map_add_def Let_def basic_tiers_def statistical_tiers_def)

lemma correlation_sections_lookup:
  "map_of (correlation_sections E df) (PStr ''high_correlations'')
     = (if 2 \<le> length (df_columns (select_numeric df)) \<and> qualifying_pairs E (select_numeric df) \<noteq> []
        then Some (PList (map (pair_entry E (select_numeric df))
                              (qualifying_pairs E (select_numeric df))))
        else None)"
  by (auto simp: correlation_sections_def Let_def high_corr_pairs_spec)

lemma generate_analysis_report_report:
  assumes "db_connections w db_name = Some info"
    and "fst (read_sql_query E (''SELECT * FROM '' @ table_name) (dbfiles w (connection info))) = Inr df"
  shows "map_of (fst (generate_analysis_report E table_name db_name analysis_type w)) ''report''
           = Some (PDict (report_of E table_name analysis_type df))"
proof (cases rule: conn_read_sql_query_cases[of E "connection info" "''SELECT * FROM '' @ table_name" w])
  case (1 e w')
  with assms show ?thesis by simp
next
  case (2 df' w')
  with assms show ?thesis by (simp add: generate_analysis_report_def)
qed

text \<open>
  Claim C3. In a report of the correlation tier, with the numeric columns \<open>nd\<close> of the table
  and the correlation matrix pandas computes for them: the section
  \<^verbatim>\<open>high_correlations\<close> is the list of the entries of the pairs \<open>(i, j)\<close>, \<open>i < j\<close>, whose
  absolute correlation exceeds \<open>0.7\<close>, one entry for each such pair and none for any other
  pair; an entry names both columns and gives the correlation rounded to three decimal
  places (within \<open>0.0005\<close> of it, a whole number of thousandths). The section is absent
  when there are fewer than two numeric columns, and when no pair qualifies.
\<close>

theorem high_correlations_reported_exactly:
  assumes known: "db_connections w db_name = Some info"
    and table: "fst (read_sql_query E (''SELECT * FROM '' @ table_name) (dbfiles w (connection info)))
                  = Inr df"
    and r: "r = fst (generate_analysis_report E table_name db_name ''correlation'' w)"
    and nd: "nd = select_numeric df"
  shows "report_section r ''high_correlations''
           = (if 2 \<le> length (df_columns nd) \<and> qualifying_pairs E nd \<noteq> []
              then Some (PList (map (pair_entry E nd) (qualifying_pairs E nd))) else None)
       \<and> distinct (qualifying_pairs E nd)
       \<and> set (qualifying_pairs E nd)
           = {(i, j). i < j \<and> j < length (df_columns nd)
                \<and> (\<exists>c. corr E nd i j = Some c \<and> 7 / 10 < \<bar>c\<bar>)}
       \<and> (\<forall>i j c. corr E nd i j = Some c \<longrightarrow>
             pair_entry E nd (i, j)
               = PDict [(PStr ''column1'', PStr (column_names nd ! i)),
                        (PStr ''column2'', PStr (column_names nd ! j)),
                        (PStr ''correlation'', PReal (round_to 3 c))]
             \<and> \<bar>round_to 3 c - c\<bar> \<le> 1 / 2000
             \<and> round_to 3 c * 1000 = of_int (round_half_even (c * 1000)))"
proof -
  have "report_section r ''high_correlations''
           = (if 2 \<le> length (df_columns nd) \<and> qualifying_pairs E nd \<noteq> []
              then Some (PList (map (pair_entry E nd) (qualifying_pairs E nd))) else None)"
    by (simp only: report_section_def r nd generate_analysis_report_report[OF known table]
        option.case pyval.case report_of_high_correlations if_True refl
        correlation_sections_lookup)
  moreover have "set (qualifying_pairs E nd)
           = {(i, j). i < j \<and> j < length (df_columns nd)
                \<and> (\<exists>c. corr E nd i j = Some c \<and> 7 / 10 < \<bar>c\<bar>)}"
    by (auto simp: set_qualifying_pairs exceeds_def split: option.splits)
  moreover have "\<bar>round_to 3 c - c\<bar> \<le> 1 / 2000" for c
    using round_to_close[of 3 c] by simp
  moreover have "round_to 3 c * 1000 = of_int (round_half_even (c * 1000))" for c
    by (simp add: round_to_def)
  ultimately show ?thesis
    by (simp add: distinct_qualifying_pairs pair_entry_def corr_entry_def)
qed

theorem high_correlations_reported_exactly_witness:
  "db_connections ref_world ''default''
     = Some \<lparr>connection = ref_conn, path = ref_conn, tables = {''sales''}\<rparr>
   \<and> fst (read_sql_query ref_env (''SELECT * FROM '' @ ''metrics'') (dbfiles ref_world ref_conn))
       = Inr metrics
   \<and> column_names (select_numeric metrics) = [''a'', ''b'', ''c'']
   \<and> corr ref_env (select_numeric metrics) 0 1 = Some (71 / 100)
   \<and> corr ref_env (select_numeric metrics) 0 2 = Some (7 / 10)
   \<and> corr ref_env (select_numeric metrics) 1 2 = None
   \<and> report_section (fst (generate_analysis_report ref_env ''metrics'' ''default'' ''correlation'' ref_world))
        ''high_correlations''
       = Some (PList [PDict [(PStr ''column1'', PStr ''a''), (PStr ''column2'', PStr ''b''),
                             (PStr ''correlation'', PReal (71 / 100))]])"
proof -
  let ?info = "\<lparr>connection = ref_conn, path = ref_conn, tables = {''sales''}\<rparr>"
  have known: "db_connections ref_world ''default'' = Some ?info"
    by (simp add: ref_world_def)
  have table: "fst (read_sql_query ref_env (''SELECT * FROM '' @ ''metrics'')
                      (dbfiles ref_world (connection ?info))) = Inr metrics"
    by code_simp
  have cols: "column_names (select_numeric metrics) = [''a'', ''b'', ''c'']" by code_simp
  have len: "length (df_columns (select_numeric metrics)) = 3" by code_simp
  have c01: "corr ref_env (select_numeric metrics) 0 1 = Some (71 / 100)"
    by (simp add: ref_env_def)
  have c02: "corr ref_env (select_numeric metrics) 0 2 = Some (7 / 10)"
    by (simp add: ref_env_def)
  have c12: "corr ref_env (select_numeric metrics) 1 2 = None"
    by (simp add: ref_env_def)
  have pairs: "qualifying_pairs ref_env (select_numeric metrics) = [(0, 1)]" by code_simp
  have rnd: "round_to 3 (71 / 100) = 71 / 100"
    by (simp add: round_to_def round_half_even_def)
  note inst = high_correlations_reported_exactly[OF known table refl refl]
  have "report_section (fst (generate_analysis_report ref_env ''metrics'' ''default'' ''correlation'' ref_world))
          ''high_correlations''
        = Some (PList [pair_entry ref_env (select_numeric metrics) (0, 1)])"
    using inst by (simp add: pairs len)
  moreover have "pair_entry ref_env (select_numeric metrics) (0, 1)
        = PDict [(PStr ''column1'', PStr ''a''), (PStr ''column2'', PStr ''b''),
                 (PStr ''correlation'', PReal (71 / 100))]"
    using c01 by (simp add: pair_entry_def corr_entry_def cols rnd)
  ultimately show ?thesis
    using known table cols c01 c02 c12 by simp
qed

section \<open>\<^verbatim>\<open>describe_table\<close>: the average of a numeric column\<close>

lemma conn_execute_eq:
  assumes "conn_execute E conn sql w = (r, w')"
  shows "r = fst (cursor_execute E sql (dbfiles w conn))"
    and "dbfiles w' = (dbfiles w)(conn := snd (cursor_execute E sql (dbfiles w conn)))"
    and "db_connections w' = db_connections w"
  using assms by (auto simp: conn_execute_def log_call_def split: prod.splits)

lemma conn_read_sql_query_eq:
  assumes "conn_read_sql_query E conn sql w = (r, w')"
  shows "r = fst (read_sql_query E sql (dbfiles w conn))"
    and "dbfiles w' = (dbfiles w)(conn := snd (read_sql_query E sql (dbfiles w conn)))"
    and "db_connections w' = db_connections w"
  using assms by (auto simp: conn_read_sql_query_def log_call_def split: prod.splits)












section \<open>\<^verbatim>\<open>get_or_create_db\<close>\<close>

lemma length_uuid_suffix: "length (take 8 (uuid_hex u)) = 8"
  by (simp add: uuid_hex_def)

lemma path_join_inject: "path_join d f = path_join d f' \<Longrightarrow> f = f'"
  by (auto simp: path_join_def split: if_splits)

lemma db_path_of_name:
  assumes "db_path_of E n k = db_path_of E n' k'"
  shows "n = n'"
proof -
  let ?h = "take 8 (uuid_hex (uuid4 E k))" and ?h' = "take 8 (uuid_hex (uuid4 E k'))"
  have "''data_analysis_'' @ n @ ''_'' @ ?h @ ''.db'' = ''data_analysis_'' @ n' @ ''_'' @ ?h' @ ''.db''"
    using assms unfolding db_path_of_def by (rule path_join_inject)
  then have "n @ (''_'' @ ?h @ ''.db'') = n' @ (''_'' @ ?h' @ ''.db'')"
    by simp
  moreover have "length (''_'' @ ?h @ ''.db'') = length (''_'' @ ?h' @ ''.db'')"
    by (simp add: uuid_hex_def)
  ultimately show ?thesis
    by (meson append_eq_append_conv)
qed

lemma get_or_create_db_known:
  "db_connections w n = Some info \<Longrightarrow> get_or_create_db E n w = (Inr (connection info), w)"
  by (simp add: get_or_create_db_def)

lemma keeps_connections_refl: "keeps_connections w w"
  by (simp add: keeps_connections_def)

lemma keeps_connections_trans:
  "keeps_connections w w1 \<Longrightarrow> keeps_connections w1 w2 \<Longrightarrow> keeps_connections w w2"
  unfolding keeps_connections_def by (metis)

lemma keeps_connections_same:
  "db_connections w' = db_connections w \<Longrightarrow> keeps_connections w w'"
  by (simp add: keeps_connections_def)

lemma hex_char_0: "hex_char 0 = CHR ''0''"
  by code_simp

lemma uuid_suffix_0: "take 8 (uuid_hex 0) = ''00000000''"
  by (simp add: uuid_hex_def hex_char_0 upt_rec take_map)

lemma ref_conn_path: "db_path_of ref_env ''default'' 0 = ref_conn"
  by (simp add: db_path_of_def uuid_suffix_0 path_join_def ref_conn_def ref_env_def)


lemma registry_paths_ref_world: "registry_paths ref_env ref_world"
proof -
  have "\<exists>k. ref_conn = db_path_of ref_env ''default'' k"
    using ref_conn_path[symmetric] by (rule exI)
  then show ?thesis
    by (auto simp: registry_paths_def ref_world_def split: if_splits)
qed

text \<open>
  Claim C9. The first call of \<^verbatim>\<open>get_or_create_db\<close> with a name registers, for that name,
  a connection opened on the path \<^verbatim>\<open>data_analysis_<name>_<suffix>.db\<close> of the temporary
  directory, the suffix being the first eight hexadecimal digits of a new UUID, with an
  empty set of table names and an empty database; that path is the path of no store
  registered before. The call returns the connection. The second call with the name, and
  any later call in a state whose registry has kept its stores, returns the same
  connection and leaves the state as it is: no store, path or UUID is made. The first
  call is one that \<^verbatim>\<open>sqlite3.connect\<close> does not fail, at a path where no database is left
  over.
\<close>

theorem get_or_create_db_idempotent:
  assumes fresh: "db_connections w db_name = None"
    and opens: "connect_error E (db_path_of E db_name (uuid_draws w)) = None"
    and nofile: "dbfiles w (db_path_of E db_name (uuid_draws w)) = []"
    and registry: "registry_paths E w"
    and first: "get_or_create_db E db_name w = (r1, w1)"
    and p: "p = db_path_of E db_name (uuid_draws w)"
  shows "r1 = Inr p
       \<and> db_connections w1
           = (db_connections w)(db_name \<mapsto> \<lparr>connection = p, path = p, tables = {}\<rparr>)
       \<and> dbfiles w1 p = []
       \<and> p = path_join (tempdir E)
               (''data_analysis_'' @ db_name @ ''_'' @ take 8 (uuid_hex (uuid4 E (uuid_draws w))) @ ''.db'')
       \<and> length (take 8 (uuid_hex (uuid4 E (uuid_draws w)))) = 8
       \<and> (\<forall>n info. db_connections w n = Some info \<longrightarrow> path info \<noteq> p)
       \<and> registry_paths E w1
       \<and> get_or_create_db E db_name w1 = (Inr p, w1)
       \<and> (\<forall>w2. keeps_connections w1 w2 \<longrightarrow>
             fst (get_or_create_db E db_name w2) = Inr p
             \<and> snd (get_or_create_db E db_name w2) = w2)"
proof -
  have w1: "w1 = w\<lparr>uuid_draws := Suc (uuid_draws w),
                   db_connections := (db_connections w)
                     (db_name \<mapsto> \<lparr>connection = p, path = p, tables = {}\<rparr>)\<rparr>"
    and r1: "r1 = Inr p"
    using first fresh opens p by (simp_all add: get_or_create_db_def Let_def)
  have new: "path info \<noteq> p" if "db_connections w n = Some info" for n info
  proof
    assume eq: "path info = p"
    from registry that obtain k where "path info = db_path_of E n k"
      by (auto simp: registry_paths_def)
    with eq p have "n = db_name" by (auto dest: db_path_of_name)
    with that fresh show False by simp
  qed
  have reg1: "registry_paths E w1"
    using registry p by (auto simp: registry_paths_def w1)
  have again: "get_or_create_db E db_name w1 = (Inr p, w1)"
    using get_or_create_db_known[of w1 db_name "\<lparr>connection = p, path = p, tables = {}\<rparr>" E]
    by (simp add: w1)
  have later: "fst (get_or_create_db E db_name w2) = Inr p \<and> snd (get_or_create_db E db_name w2) = w2"
    if "keeps_connections w1 w2" for w2
  proof -
    have "db_connections w1 db_name = Some \<lparr>connection = p, path = p, tables = {}\<rparr>"
      by (simp add: w1)
    with that have "\<exists>info'. db_connections w2 db_name = Some info'
        \<and> connection info' = connection \<lparr>connection = p, path = p, tables = {}\<rparr>
        \<and> path info' = path \<lparr>connection = p, path = p, tables = {}\<rparr>"
      unfolding keeps_connections_def by blast
    then obtain info' where "db_connections w2 db_name = Some info'" "connection info' = p"
      by auto
    then show ?thesis by (simp add: get_or_create_db_known)
  qed
  show ?thesis
    using r1 new reg1 again later nofile p
    by (simp add: w1 db_path_of_def uuid_hex_def)
qed


lemma uuid_suffix_1: "take 8 (uuid_hex 1) = ''00000000''"
  by (simp add: uuid_hex_def hex_char_0 upt_rec take_map)

theorem get_or_create_db_idempotent_witness:
  "db_connections ref_world ''other'' = None
   \<and> connect_error ref_env (db_path_of ref_env ''other'' (uuid_draws ref_world)) = None
   \<and> dbfiles ref_world (db_path_of ref_env ''other'' (uuid_draws ref_world)) = []
   \<and> registry_paths ref_env ref_world
   \<and> db_path_of ref_env ''other'' (uuid_draws ref_world) = ''/tmp/data_analysis_other_00000000.db''
   \<and> fst (get_or_create_db ref_env ''other'' ref_world) = Inr ''/tmp/data_analysis_other_00000000.db''
   \<and> db_connections (snd (get_or_create_db ref_env ''other'' ref_world)) ''other''
       = Some \<lparr>connection = ''/tmp/data_analysis_other_00000000.db'',
                path = ''/tmp/data_analysis_other_00000000.db'', tables = {}\<rparr>
   \<and> get_or_create_db ref_env ''other'' (snd (get_or_create_db ref_env ''other'' ref_world))
       = (Inr ''/tmp/data_analysis_other_00000000.db'', snd (get_or_create_db ref_env ''other'' ref_world))"
proof -
  let ?p = "db_path_of ref_env ''other'' (uuid_draws ref_world)"
  have fresh: "db_connections ref_world ''other'' = None"
    by (simp add: ref_world_def)
  have opens: "connect_error ref_env ?p = None"
    by (simp add: ref_env_def)
  have "?p \<noteq> ref_conn"
    using db_path_of_name[of ref_env "''other''" "uuid_draws ref_world" "''default''" 0]
    by (auto simp: ref_conn_path)
  then have nofile: "dbfiles ref_world ?p = []"
    by (simp add: ref_world_def)
  have path: "?p = ''/tmp/data_analysis_other_00000000.db''"
    by (simp add: db_path_of_def uuid_suffix_1 path_join_def ref_env_def ref_world_def)
  note inst = get_or_create_db_idempotent[OF fresh opens nofile registry_paths_ref_world
      surjective_pairing refl]
  show ?thesis
    using fresh opens nofile registry_paths_ref_world inst
    by (simp add: path)
qed

lemma conn_execute_connections [simp]:
  "db_connections (snd (conn_execute E conn sql w)) = db_connections w"
  by (simp add: conn_execute_def log_call_def split: prod.splits)

lemma conn_read_sql_query_connections [simp]:
  "db_connections (snd (conn_read_sql_query E conn sql w)) = db_connections w"
  by (simp add: conn_read_sql_query_def log_call_def split: prod.splits)

lemma conn_to_sql_connections [simp]:
  "db_connections (snd (conn_to_sql E conn name df w)) = db_connections w"
  by (simp add: conn_to_sql_def log_call_def split: prod.splits)

lemma conn_commit_connections [simp]:
  "db_connections (snd (conn_commit E conn w)) = db_connections w"
  by (simp add: conn_commit_def log_call_def split: prod.splits)

lemma get_or_create_db_keeps: "keeps_connections w (snd (get_or_create_db E db_name w))"
  by (auto simp: keeps_connections_def get_or_create_db_def Let_def split: option.splits)

lemma register_table_keeps: "register_table db_name t w = Inr w' \<Longrightarrow> keeps_connections w w'"
  by (auto simp: keeps_connections_def register_table_def split: option.splits)

lemma clear_tables_keeps: "clear_tables db_name w = Inr w' \<Longrightarrow> keeps_connections w w'"
  by (auto simp: keeps_connections_def clear_tables_def split: option.splits)

lemma numeric_statistics_connections [simp]:
  "db_connections (snd (numeric_statistics E conn t cols acc w)) = db_connections w"
proof (induction cols arbitrary: acc w)
  case Nil
  then show ?case by simp
next
  case (Cons col cols)
  show ?case
    by (auto simp: Cons split: prod.splits sum.splits dest: conn_execute_eq(3))
qed

lemma drop_tables_connections [simp]:
  "db_connections (snd (drop_tables E conn ts w)) = db_connections w"
proof (induction ts arbitrary: w)
  case Nil
  then show ?case by simp
next
  case (Cons t ts)
  show ?case
    by (auto simp: Cons split: prod.splits sum.splits dest: conn_execute_eq(3))
qed


lemma snd_eqD: "f = (r, w') \<Longrightarrow> snd f = w'"
  by simp

lemma list_tables_connections:
  "db_connections (snd (list_tables E db_name w)) = db_connections w"
  by (auto simp: list_tables_def split: option.splits prod.splits sum.splits
      dest: conn_execute_eq(3))

lemma describe_table_connections:
  "db_connections (snd (describe_table E table_name db_name w)) = db_connections w"
proof (cases "db_connections w db_name")
  case None
  then show ?thesis by (simp add: describe_table_def)
next
  case (Some info)
  have ns: "db_connections w' = db_connections w0"
    if "numeric_statistics E conn t cols acc w0 = (r, w')" for conn t cols acc w0 r w'
    using numeric_statistics_connections[of E conn t cols acc w0] that by simp
  show ?thesis
    using Some
    by (auto simp: describe_table_def split: prod.splits sum.splits
        dest!: conn_execute_eq(3) conn_read_sql_query_eq(3) ns)
qed

lemma execute_sql_connections:
  "db_connections (snd (execute_sql E query db_name limit w)) = db_connections w"
  by (auto simp: execute_sql_def split: option.splits prod.splits sum.splits
      dest: conn_read_sql_query_eq(3))

lemma generate_analysis_report_connections:
  "db_connections (snd (generate_analysis_report E table_name db_name analysis_type w))
     = db_connections w"
  by (auto simp: generate_analysis_report_def split: option.splits prod.splits sum.splits
      dest: conn_read_sql_query_eq(3))

lemma export_query_result_connections:
  "db_connections (snd (export_query_result E query output_path db_name format w))
     = db_connections w"
  by (auto simp: export_query_result_def write_result_def
      split: option.splits prod.splits sum.splits dest: conn_read_sql_query_eq(3))

lemma import_file_keeps:
  "keeps_connections w (snd (import_file E file_path table_name db_name sheet_name encoding w))"
proof -
  have step: "keeps_connections w w3"
    if "get_or_create_db E db_name w = (r, w1)" "conn_to_sql E conn t df w1 = (r2, w2)"
      "register_table db_name t w2 = Inr w3" for r w1 conn t df r2 w2 w3
  proof -
    have "keeps_connections w w1"
      using get_or_create_db_keeps[of w E db_name] that(1) by simp
    moreover have "keeps_connections w1 w2"
      using conn_to_sql_connections[of E conn t df w1] that(2)
      by (simp add: keeps_connections_same)
    moreover have "keeps_connections w2 w3"
      using that(3) by (rule register_table_keeps)
    ultimately show ?thesis by (blast intro: keeps_connections_trans)
  qed
  have step2: "keeps_connections w w2"
    if "get_or_create_db E db_name w = (r, w1)" "conn_to_sql E conn t df w1 = (r2, w2)"
    for r w1 conn t df r2 w2
  proof -
    have "keeps_connections w w1"
      using get_or_create_db_keeps[of w E db_name] that(1) by simp
    moreover have "keeps_connections w1 w2"
      using conn_to_sql_connections[of E conn t df w1] that(2)
      by (simp add: keeps_connections_same)
    ultimately show ?thesis by (blast intro: keeps_connections_trans)
  qed
  have step1: "keeps_connections w w1" if "get_or_create_db E db_name w = (r, w1)" for r w1
    using get_or_create_db_keeps[of w E db_name] that by simp
  show ?thesis
    by (auto simp: import_file_def Let_def keeps_connections_refl
        split: option.splits prod.splits sum.splits intro: step step1 step2)
qed

lemma clean_database_keeps: "keeps_connections w (snd (clean_database E db_name w))"
proof -
  have dt: "db_connections w' = db_connections w0"
    if "drop_tables E conn ts w0 = (r, w')" for conn ts w0 r w'
    using drop_tables_connections[of E conn ts w0] that by simp
  have cm: "db_connections w' = db_connections w0"
    if "conn_commit E conn w0 = (r, w')" for conn w0 r w'
    using conn_commit_connections[of E conn w0] that by simp
  have same: "keeps_connections w w'" if "db_connections w' = db_connections w" for w'
    using that by (rule keeps_connections_same)
  have cleared: "keeps_connections w w4"
    if "db_connections w3 = db_connections w" "clear_tables db_name w3 = Inr w4" for w3 w4
    using clear_tables_keeps[OF that(2)] that(1)
    by (auto simp: keeps_connections_def)
  show ?thesis
    by (auto simp: clean_database_def keeps_connections_refl
        split: option.splits prod.splits sum.splits
        dest!: conn_execute_eq(3) dt cm intro: cleared same)
qed

section \<open>\<^verbatim>\<open>clean_database\<close>\<close>

lemma conn_execute_result:
  "cursor_execute E sql (dbfiles w conn) = (r, db') \<Longrightarrow>
     conn_execute E conn sql w = (r, log_call conn sql db' w)"
  by (simp add: conn_execute_def)

lemma conn_commit_result:
  "commit E (dbfiles w conn) = (r, db') \<Longrightarrow>
     conn_commit E conn w = (r, log_call conn ''COMMIT'' db' w)"
  by (simp add: conn_commit_def)

lemma first_column_names: "first_column (map (\<lambda>(n, d). [TextV n]) db) = Inr (map (\<lambda>(n, d). TextV n) db)"
  by (induction db) (auto)

lemma others_absent:
  "filter (\<lambda>(m, d). m \<notin> set ns) (others n db) = filter (\<lambda>(m, d). m \<noteq> n \<and> m \<notin> set ns) db"
  by (induction db) (auto simp: others_def)

lemma drop_tables_all:
  assumes "\<forall>n \<in> set ns. drops_table E n"
  shows "drop_tables E conn (map TextV ns) w
           = (None,
              w\<lparr>dbfiles := (dbfiles w)(conn := filter (\<lambda>(m, d). m \<notin> set ns) (dbfiles w conn)),
                 sql_log := sql_log w @ map (\<lambda>n. (conn, drop_statement E (TextV n))) ns\<rparr>)"
  using assms
proof (induction ns arbitrary: w)
  case Nil
  then show ?case by simp
next
  case (Cons n ns)
  let ?w1 = "log_call conn (drop_statement E (TextV n)) (others n (dbfiles w conn)) w"
  have "cursor_execute E (drop_statement E (TextV n)) (dbfiles w conn)
          = (Inr [], others n (dbfiles w conn))"
    using Cons.prems by (simp add: drops_table_def)
  then have ex: "conn_execute E conn (drop_statement E (TextV n)) w = (Inr [], ?w1)"
    by (rule conn_execute_result)
  have ih: "drop_tables E conn (map TextV ns) ?w1
           = (None,
              ?w1\<lparr>dbfiles := (dbfiles ?w1)(conn := filter (\<lambda>(m, d). m \<notin> set ns) (dbfiles ?w1 conn)),
                 sql_log := sql_log ?w1 @ map (\<lambda>n. (conn, drop_statement E (TextV n))) ns\<rparr>)"
    using Cons.prems by (intro Cons.IH) simp
  have "drop_tables E conn (map TextV (n # ns)) w = drop_tables E conn (map TextV ns) ?w1"
    by (simp add: ex)
  also note ih
  also have "?w1\<lparr>dbfiles := (dbfiles ?w1)(conn := filter (\<lambda>(m, d). m \<notin> set ns) (dbfiles ?w1 conn)),
                 sql_log := sql_log ?w1 @ map (\<lambda>n. (conn, drop_statement E (TextV n))) ns\<rparr>
      = w\<lparr>dbfiles := (dbfiles w)(conn := filter (\<lambda>(m, d). m \<notin> set (n # ns)) (dbfiles w conn)),
           sql_log := sql_log w @ map (\<lambda>n. (conn, drop_statement E (TextV n))) (n # ns)\<rparr>"
    by (simp add: log_call_def others_absent)
  finally show ?case .
qed

lemma filter_all_names: "filter (\<lambda>(m, d). m \<notin> fst ` set db) db = []"
  by (force simp: filter_empty_conv)

text \<open>
  On an unknown store name \<^verbatim>\<open>clean_database\<close> returns the error result and changes
  nothing. On a known store, with an engine that lists the catalog, executes the
  \<^verbatim>\<open>DROP\<close> statement of each catalogued name and commits: the deleted tables are the
  names of the catalog of the store's database, in its order, whatever the bookkeeping
  set holds; afterwards the database has no table and the bookkeeping set is empty.
\<close>

lemma clean_database_drops_catalog:
  "(db_connections w db_name = None \<longrightarrow>
      clean_database E db_name w = (error_result (DatabaseMissing db_name), w))
   \<and> (\<forall>info db.
        db_connections w db_name = Some info \<and> db = dbfiles w (connection info)
        \<and> lists_catalog E db \<and> (\<forall>n \<in> set (map fst db). drops_table E n) \<and> commits E \<longrightarrow>
        fst (clean_database E db_name w)
          = [(''status'', PStr ''success''),
             (''message'', PMsg (CleanSucceeded db_name (length db))),
             (''deleted_tables'', PList (map (\<lambda>(n, d). PStr n) db))]
        \<and> dbfiles (snd (clean_database E db_name w)) (connection info) = []
        \<and> (\<forall>p. p \<noteq> connection info \<longrightarrow>
              dbfiles (snd (clean_database E db_name w)) p = dbfiles w p)
        \<and> db_connections (snd (clean_database E db_name w))
            = (db_connections w)(db_name \<mapsto> info\<lparr>tables := {}\<rparr>)
        \<and> sql_log (snd (clean_database E db_name w))
            = sql_log w @ [(connection info, sqlite_master_query)]
              @ map (\<lambda>(n, d). (connection info, ''DROP TABLE IF EXISTS '' @ n @ '';'')) db
              @ [(connection info, ''COMMIT'')])"
proof (intro conjI allI impI)
  assume "db_connections w db_name = None"
  then show "clean_database E db_name w = (error_result (DatabaseMissing db_name), w)"
    by (simp add: clean_database_def)
next
  fix info db
  assume a: "db_connections w db_name = Some info \<and> db = dbfiles w (connection info)
        \<and> lists_catalog E db \<and> (\<forall>n \<in> set (map fst db). drops_table E n) \<and> commits E"
  let ?conn = "connection info"
  let ?w1 = "log_call ?conn sqlite_master_query db w"
  let ?w2 = "?w1\<lparr>dbfiles := (dbfiles ?w1)(?conn := filter (\<lambda>(m, d). m \<notin> set (map fst db)) (dbfiles ?w1 ?conn)),
                 sql_log := sql_log ?w1 @ map (\<lambda>n. (?conn, drop_statement E (TextV n))) (map fst db)\<rparr>"
  let ?w3 = "log_call ?conn ''COMMIT'' (dbfiles ?w2 ?conn) ?w2"
  have known: "db_connections w db_name = Some info" and db: "db = dbfiles w ?conn" using a by auto
  have "cursor_execute E sqlite_master_query (dbfiles w ?conn) = (Inr (map (\<lambda>(n, d). [TextV n]) db), db)"
    using a by (auto simp: lists_catalog_def)
  then have ex1: "conn_execute E ?conn sqlite_master_query w = (Inr (map (\<lambda>(n, d). [TextV n]) db), ?w1)"
    by (rule conn_execute_result)
  have names: "map (\<lambda>(n, d). TextV n) db = map TextV (map fst db)"
    by (induction db) auto
  have ex2: "drop_tables E ?conn (map TextV (map fst db)) ?w1 = (None, ?w2)"
    using a by (intro drop_tables_all) simp
  have "commit E (dbfiles ?w2 ?conn) = (Inr (), dbfiles ?w2 ?conn)"
    using a by (simp add: commits_def)
  then have ex3: "conn_commit E ?conn ?w2 = (Inr (), ?w3)"
    by (rule conn_commit_result)
  have reg: "db_connections ?w3 db_name = Some info"
    using known by (simp add: log_call_def)
  have res: "clean_database E db_name w
      = ([(''status'', PStr ''success''),
          (''message'', PMsg (CleanSucceeded db_name (length db))),
          (''deleted_tables'', PList (map (\<lambda>(n, d). PStr n) db))],
         ?w3\<lparr>db_connections := (db_connections ?w3)(db_name \<mapsto> info\<lparr>tables := {}\<rparr>)\<rparr>)"
    using known ex1 ex2 ex3 reg
    by (simp add: clean_database_def first_column_names names clear_tables_def comp_def
        split_beta)
  show "fst (clean_database E db_name w)
          = [(''status'', PStr ''success''),
             (''message'', PMsg (CleanSucceeded db_name (length db))),
             (''deleted_tables'', PList (map (\<lambda>(n, d). PStr n) db))]"
    by (simp add: res)
  show "dbfiles (snd (clean_database E db_name w)) ?conn = []"
    by (simp add: res log_call_def filter_all_names)
  show "\<And>p. p \<noteq> ?conn \<Longrightarrow> dbfiles (snd (clean_database E db_name w)) p = dbfiles w p"
    by (simp add: res log_call_def)
  show "db_connections (snd (clean_database E db_name w))
            = (db_connections w)(db_name \<mapsto> info\<lparr>tables := {}\<rparr>)"
    by (simp add: res log_call_def)
  show "sql_log (snd (clean_database E db_name w))
            = sql_log w @ [(?conn, sqlite_master_query)]
              @ map (\<lambda>(n, d). (?conn, ''DROP TABLE IF EXISTS '' @ n @ '';'')) db
              @ [(?conn, ''COMMIT'')]"
    by (simp add: res log_call_def drop_statement_def split_beta)
qed


lemma ref_drop_text: "between ''DROP TABLE IF EXISTS '' '';'' (''DROP TABLE IF EXISTS '' @ n @ '';'') = Some n"
  by (simp add: between_def)

lemma drops_table_ref_env:
  assumes "is_identifier n"
  shows "drops_table ref_env n"
proof -
  let ?sql = "''DROP TABLE IF EXISTS '' @ n @ '';''"
  have ne: "(?sql = sqlite_master_query) = False"
    by (simp add: sqlite_master_query_def)
  have run: "ref_execute ?sql db = (Inr [], others n db)" for db
    unfolding ref_execute_def
    by (simp only: ne if_False ref_drop_text option.case assms if_True others_def)
  have stmt: "drop_statement ref_env (TextV n) = ?sql"
    by (simp only: drop_statement_def cell_str.simps)
  have eng: "cursor_execute ref_env = ref_execute"
    by (simp add: ref_env_def)
  show ?thesis
    unfolding drops_table_def stmt eng using run by blast
qed

lemma clean_database_on_reference_store:
  "db_connections ref_world ''ghost'' = None
   \<and> clean_database ref_env ''ghost'' ref_world = (error_result (DatabaseMissing ''ghost''), ref_world)
   \<and> db_connections ref_world ''default''
       = Some \<lparr>connection = ref_conn, path = ref_conn, tables = {''sales''}\<rparr>
   \<and> dbfiles ref_world ref_conn = [(''sales'', sales), (''metrics'', metrics)]
   \<and> lists_catalog ref_env (dbfiles ref_world ref_conn)
   \<and> drops_table ref_env ''sales'' \<and> drops_table ref_env ''metrics'' \<and> commits ref_env
   \<and> fst (clean_database ref_env ''default'' ref_world)
       = [(''status'', PStr ''success''),
          (''message'', PMsg (CleanSucceeded ''default'' 2)),
          (''deleted_tables'', PList [PStr ''sales'', PStr ''metrics''])]
   \<and> dbfiles (snd (clean_database ref_env ''default'' ref_world)) ref_conn = []
   \<and> db_connections (snd (clean_database ref_env ''default'' ref_world)) ''default''
       = Some \<lparr>connection = ref_conn, path = ref_conn, tables = {}\<rparr>"
proof -
  let ?info = "\<lparr>connection = ref_conn, path = ref_conn, tables = {''sales''}\<rparr>"
  have ghost: "db_connections ref_world ''ghost'' = None"
    by (simp add: ref_world_def)
  have known: "db_connections ref_world ''default'' = Some ?info"
    by (simp add: ref_world_def)
  have db: "dbfiles ref_world ref_conn = [(''sales'', sales), (''metrics'', metrics)]"
    by (simp add: ref_world_def)
  have cat: "lists_catalog ref_env (dbfiles ref_world ref_conn)"
    by (simp add: lists_catalog_def ref_env_def ref_execute_def)
  have i1: "is_identifier ''sales''" by code_simp
  have i2: "is_identifier ''metrics''" by code_simp
  have d1: "drops_table ref_env ''sales''" using i1 by (rule drops_table_ref_env)
  have d2: "drops_table ref_env ''metrics''" using i2 by (rule drops_table_ref_env)
  have com: "commits ref_env" by (simp add: commits_def ref_env_def)
  have unknown: "clean_database ref_env ''ghost'' ref_world
                   = (error_result (DatabaseMissing ''ghost''), ref_world)"
    using clean_database_drops_catalog[of ref_world "''ghost''" ref_env] ghost by blast
  have hyp: "db_connections ref_world ''default'' = Some ?info
      \<and> [(''sales'', sales), (''metrics'', metrics)] = dbfiles ref_world (connection ?info)
      \<and> lists_catalog ref_env [(''sales'', sales), (''metrics'', metrics)]
      \<and> (\<forall>n \<in> set (map fst [(''sales'', sales), (''metrics'', metrics)]). drops_table ref_env n)
      \<and> commits ref_env"
    using known db cat d1 d2 com by simp
  note inst = clean_database_drops_catalog[of ref_world "''default''" ref_env,
      THEN conjunct2, rule_format, OF hyp]
  show ?thesis
    using ghost unknown known db cat d1 d2 com inst
    by simp
qed


lemma clean_database_failing_drop:
  assumes known: "db_connections w db_name = Some info"
    and db: "dbfiles w (connection info) = (n, d) # rest"
    and cat: "lists_catalog E ((n, d) # rest)"
    and raises: "cursor_execute E (drop_statement E (TextV n)) ((n, d) # rest) = (Inl e, db')"
  shows "fst (clean_database E db_name w) = error_result (CleanFailed e)
       \<and> db_connections (snd (clean_database E db_name w)) = db_connections w"
proof -
  let ?conn = "connection info"
  let ?w1 = "log_call ?conn sqlite_master_query ((n, d) # rest) w"
  have "cursor_execute E sqlite_master_query (dbfiles w ?conn)
          = (Inr (map (\<lambda>(n, d). [TextV n]) ((n, d) # rest)), (n, d) # rest)"
    using cat db by (simp add: lists_catalog_def)
  then have ex1: "conn_execute E ?conn sqlite_master_query w
                    = (Inr (map (\<lambda>(n, d). [TextV n]) ((n, d) # rest)), ?w1)"
    by (rule conn_execute_result)
  have "cursor_execute E (drop_statement E (TextV n)) (dbfiles ?w1 ?conn) = (Inl e, db')"
    using raises by (simp add: log_call_def)
  then have ex2: "conn_execute E ?conn (drop_statement E (TextV n)) ?w1
                    = (Inl e, log_call ?conn (drop_statement E (TextV n)) db' ?w1)"
    by (rule conn_execute_result)
  show ?thesis
    using known ex1[unfolded log_call_def] ex2[unfolded log_call_def]
    by (simp add: clean_database_def first_column_names)
qed

text \<open>
  Claim C7 at a store whose one table is \<^verbatim>\<open>2023_sales\<close>, the name \<^verbatim>\<open>import_file\<close> derives
  for the file \<^verbatim>\<open>2023-sales.csv\<close>. \<^verbatim>\<open>clean_database\<close> is to drop the table, clear the
  bookkeeping set and return the name. It submits \<^verbatim>\<open>DROP TABLE IF EXISTS 2023_sales;\<close>,
  the name unquoted, which the engine rejects, and returns an error: the table is still
  in the catalog, the bookkeeping set still holds its name, and no list of deleted tables
  is returned.
\<close>

theorem clean_database_unquoted_table:
  "default_table_name ''/data/2023-sales.csv'' = ''2023_sales''
   \<and> status (fst (import_file ref_env ''/data/2023-sales.csv'' None ''default'' None None blank_world))
       = Some (PStr ''success'')
   \<and> map_of (fst (import_file ref_env ''/data/2023-sales.csv'' None ''default'' None None blank_world))
         ''table'' = Some (PStr ''2023_sales'')
   \<and> map fst (dbfiles (snd (import_file ref_env ''/data/2023-sales.csv'' None ''default'' None None
         blank_world)) ref_conn) = [''2023_sales'']
   \<and> drop_statement ref_env (TextV ''2023_sales'') = ''DROP TABLE IF EXISTS 2023_sales;''
   \<and> fst (clean_database ref_env ''default''
         (snd (import_file ref_env ''/data/2023-sales.csv'' None ''default'' None None blank_world)))
       = error_result (CleanFailed syntax_error)
   \<and> map fst (dbfiles (snd (clean_database ref_env ''default''
         (snd (import_file ref_env ''/data/2023-sales.csv'' None ''default'' None None blank_world))))
         ref_conn) = [''2023_sales'']
   \<and> (case db_connections (snd (clean_database ref_env ''default''
         (snd (import_file ref_env ''/data/2023-sales.csv'' None ''default'' None None blank_world))))
         ''default'' of None \<Rightarrow> False | Some i \<Rightarrow> ''2023_sales'' \<in> tables i)"
  by code_simp

section \<open>\<^verbatim>\<open>import_file\<close>: importing a file twice\<close>

lemma get_or_create_db_ok:
  assumes "get_or_create_db E n w = (Inr conn, w0)"
  shows "dbfiles w0 = dbfiles w"
    and "\<exists>info0. db_connections w0 n = Some info0 \<and> connection info0 = conn"
  using assms
  by (auto simp: get_or_create_db_def Let_def split: option.splits)

lemma conn_to_sql_result:
  "to_sql E name df (dbfiles w conn) = (r, db') \<Longrightarrow>
     conn_to_sql E conn name df w = (r, log_call conn (''to_sql '' @ name) db' w)"
  by (simp add: conn_to_sql_def)

lemma import_file_success:
  assumes load: "load_by_extension E file_path sheet_name encoding = Some (Inr df)"
    and ok: "status (fst (import_file E file_path table_name db_name sheet_name encoding w))
               = Some (PStr ''success'')"
    and table: "table = or_else table_name (default_table_name file_path)"
  obtains conn w0 db' info0 where
    "get_or_create_db E db_name w = (Inr conn, w0)"
    "to_sql E table df (dbfiles w0 conn) = (Inr (), db')"
    "db_connections w0 db_name = Some info0"
    "connection info0 = conn"
    "import_file E file_path table_name db_name sheet_name encoding w
       = ([(''status'', PStr ''success''),
           (''message'', PMsg (ImportSucceeded (path_name file_path))),
           (''database'', PStr db_name),
           (''table'', PStr table),
           (''statistics'', import_statistics df)],
          (log_call conn (''to_sql '' @ table) db' w0)
            \<lparr>db_connections := (db_connections w0)
               (db_name \<mapsto> info0\<lparr>tables := insert table (tables info0)\<rparr>)\<rparr>)"
proof -
  have ex: "path_exists E file_path"
    using ok by (auto simp: import_file_def status_def error_result_def split: if_splits)
  obtain r0 w0 where g: "get_or_create_db E db_name w = (r0, w0)"
    by (cases "get_or_create_db E db_name w")
  from ok ex load g obtain conn where r0: "r0 = Inr conn"
    by (cases r0) (auto simp: import_file_def Let_def status_def error_result_def)
  obtain r1 db' where t: "to_sql E table df (dbfiles w0 conn) = (r1, db')"
    by (cases "to_sql E table df (dbfiles w0 conn)")
  note ct = conn_to_sql_result[OF t]
  from ok ex load g r0 ct table have r1: "r1 = Inr ()"
    by (cases r1) (auto simp: import_file_def Let_def status_def error_result_def)
  from get_or_create_db_ok(2)[OF g[unfolded r0]] obtain info0
    where i0: "db_connections w0 db_name = Some info0" "connection info0 = conn"
    by blast
  have reg: "register_table db_name table (log_call conn (''to_sql '' @ table) db' w0)
      = Inr ((log_call conn (''to_sql '' @ table) db' w0)
            \<lparr>db_connections := (db_connections w0)
               (db_name \<mapsto> info0\<lparr>tables := insert table (tables info0)\<rparr>)\<rparr>)"
    using i0 by (simp add: register_table_def log_call_def)
  have "import_file E file_path table_name db_name sheet_name encoding w
       = ([(''status'', PStr ''success''),
           (''message'', PMsg (ImportSucceeded (path_name file_path))),
           (''database'', PStr db_name),
           (''table'', PStr table),
           (''statistics'', import_statistics df)],
          (log_call conn (''to_sql '' @ table) db' w0)
            \<lparr>db_connections := (db_connections w0)
               (db_name \<mapsto> info0\<lparr>tables := insert table (tables info0)\<rparr>)\<rparr>)"
    using ex load g r0 ct r1 reg table by (simp add: import_file_def Let_def)
  with g r0 t r1 i0 show ?thesis
    using that by blast
qed


text \<open>
  Claim C6. The same file is imported twice under the same table name into the same
  store, both imports succeed, and \<^verbatim>\<open>to_sql\<close> replaces as \<^verbatim>\<open>if_exists='replace'\<close> does.
  After the second import the database of the store holds exactly one table of that
  name, and it is the frame loaded from the file: the table of the first import is
  replaced, with nothing appended or merged. The other tables and the registry are as
  after the first import, the name is in the bookkeeping set, and both results report
  the same table and statistics, whose row and column counts are those of the frame
  stored.
\<close>

theorem import_file_twice:
  assumes rep: "replaces_table E"
    and load: "load_by_extension E file_path sheet_name encoding = Some (Inr df)"
    and table: "table = or_else table_name (default_table_name file_path)"
    and first: "import_file E file_path table_name db_name sheet_name encoding w = (r1, w1)"
    and ok1: "status r1 = Some (PStr ''success'')"
    and second: "import_file E file_path table_name db_name sheet_name encoding w1 = (r2, w2)"
    and ok2: "status r2 = Some (PStr ''success'')"
    and info: "db_connections w2 db_name = Some info"
  shows "named table (dbfiles w2 (connection info)) = [(table, df)]
       \<and> named table (dbfiles w1 (connection info)) = [(table, df)]
       \<and> others table (dbfiles w2 (connection info)) = others table (dbfiles w1 (connection info))
       \<and> db_connections w2 = db_connections w1
       \<and> table \<in> tables info
       \<and> map_of r1 ''table'' = Some (PStr table) \<and> map_of r2 ''table'' = Some (PStr table)
       \<and> map_of r1 ''statistics'' = Some (import_statistics df)
       \<and> map_of r2 ''statistics'' = Some (import_statistics df)
       \<and> dict_entry (map_of r1 ''statistics'') (PStr ''rows'') = Some (PInt (int (length (df_rows df))))
       \<and> dict_entry (map_of r1 ''statistics'') (PStr ''columns'')
           = Some (PInt (int (length (df_columns df))))"
proof -
  let ?imp = "\<lambda>w. import_file E file_path table_name db_name sheet_name encoding w"
  have ok1': "status (fst (?imp w)) = Some (PStr ''success'')" using first ok1 by simp
  have ok2': "status (fst (?imp w1)) = Some (PStr ''success'')" using second ok2 by simp
  from import_file_success[OF load ok1' table]
  obtain conn w0 db1 info0 where
    g1: "get_or_create_db E db_name w = (Inr conn, w0)"
    and t1: "to_sql E table df (dbfiles w0 conn) = (Inr (), db1)"
    and i0: "db_connections w0 db_name = Some info0" "connection info0 = conn"
    and res1: "?imp w
       = ([(''status'', PStr ''success''),
           (''message'', PMsg (ImportSucceeded (path_name file_path))),
           (''database'', PStr db_name),
           (''table'', PStr table),
           (''statistics'', import_statistics df)],
          (log_call conn (''to_sql '' @ table) db1 w0)
            \<lparr>db_connections := (db_connections w0)
               (db_name \<mapsto> info0\<lparr>tables := insert table (tables info0)\<rparr>)\<rparr>)"
    by blast
  let ?info1 = "info0\<lparr>tables := insert table (tables info0)\<rparr>"
  have r1: "r1 = [(''status'', PStr ''success''),
           (''message'', PMsg (ImportSucceeded (path_name file_path))),
           (''database'', PStr db_name),
           (''table'', PStr table),
           (''statistics'', import_statistics df)]"
    and w1: "w1 = (log_call conn (''to_sql '' @ table) db1 w0)
            \<lparr>db_connections := (db_connections w0)(db_name \<mapsto> ?info1)\<rparr>"
    using first res1 by simp_all
  have reg1: "db_connections w1 db_name = Some ?info1" by (simp add: w1)
  have db1: "dbfiles w1 conn = db1" by (simp add: w1 log_call_def)
  from import_file_success[OF load ok2' table]
  obtain conn2 w0' db2 info0' where
    g2: "get_or_create_db E db_name w1 = (Inr conn2, w0')"
    and t2: "to_sql E table df (dbfiles w0' conn2) = (Inr (), db2)"
    and i0': "db_connections w0' db_name = Some info0'" "connection info0' = conn2"
    and res2: "?imp w1
       = ([(''status'', PStr ''success''),
           (''message'', PMsg (ImportSucceeded (path_name file_path))),
           (''database'', PStr db_name),
           (''table'', PStr table),
           (''statistics'', import_statistics df)],
          (log_call conn2 (''to_sql '' @ table) db2 w0')
            \<lparr>db_connections := (db_connections w0')
               (db_name \<mapsto> info0'\<lparr>tables := insert table (tables info0')\<rparr>)\<rparr>)"
    by blast
  have known: "get_or_create_db E db_name w1 = (Inr (connection ?info1), w1)"
    using reg1 by (rule get_or_create_db_known)
  have c2: "conn2 = conn" and w0': "w0' = w1"
    using g2 known i0(2) by simp_all
  have info0': "info0' = ?info1" using i0'(1) reg1 w0' by simp
  have r2: "r2 = [(''status'', PStr ''success''),
           (''message'', PMsg (ImportSucceeded (path_name file_path))),
           (''database'', PStr db_name),
           (''table'', PStr table),
           (''statistics'', import_statistics df)]"
    and w2: "w2 = (log_call conn (''to_sql '' @ table) db2 w1)
            \<lparr>db_connections := (db_connections w1)
               (db_name \<mapsto> ?info1\<lparr>tables := insert table (tables ?info1)\<rparr>)\<rparr>"
    using second res2 c2 w0' info0' by simp_all
  have same: "?info1\<lparr>tables := insert table (tables ?info1)\<rparr> = ?info1" by simp
  have regs: "db_connections w2 = db_connections w1"
    by (simp add: w2 same reg1 fun_upd_idem log_call_def)
  have info_eq: "info = ?info1" using info regs reg1 by simp
  have conn: "connection info = conn" using info_eq i0(2) by simp
  have db2: "dbfiles w2 conn = db2" by (simp add: w2 log_call_def)
  have t2': "to_sql E table df db1 = (Inr (), db2)"
    using t2 c2 w0' db1 by simp
  have n1: "named table db1 = [(table, df)]"
    using rep t1 by (simp add: replaces_table_def)
  have n2: "named table db2 = [(table, df)]" and o2: "others table db2 = others table db1"
    using rep t2' by (simp_all add: replaces_table_def)
  have stats: "dict_entry (Some (import_statistics df)) (PStr ''rows'')
                  = Some (PInt (int (length (df_rows df))))"
      "dict_entry (Some (import_statistics df)) (PStr ''columns'')
                  = Some (PInt (int (length (df_columns df))))"
    by (simp_all add: dict_entry_def import_statistics_def)
  show ?thesis
    using n1 n2 o2 regs stats
    by (simp add: db1 db2 r1 r2 info_eq i0(2))
qed


lemma replaces_table_ref_env: "replaces_table ref_env"
  by (auto simp: replaces_table_def ref_env_def ref_to_sql_def named_def others_def
      filter_empty_conv)

theorem import_file_twice_witness:
  "replaces_table ref_env
   \<and> load_by_extension ref_env ''/data/sales.csv'' None None = Some (Inr sales)
   \<and> or_else None (default_table_name ''/data/sales.csv'') = ''sales''
   \<and> status (fst (import_file ref_env ''/data/sales.csv'' None ''default'' None None ref_world))
       = Some (PStr ''success'')
   \<and> status (fst (import_file ref_env ''/data/sales.csv'' None ''default'' None None
         (snd (import_file ref_env ''/data/sales.csv'' None ''default'' None None ref_world))))
       = Some (PStr ''success'')
   \<and> named ''sales'' (dbfiles
         (snd (import_file ref_env ''/data/sales.csv'' None ''default'' None None
           (snd (import_file ref_env ''/data/sales.csv'' None ''default'' None None ref_world))))
         ref_conn) = [(''sales'', sales)]
   \<and> dict_entry (map_of (fst (import_file ref_env ''/data/sales.csv'' None ''default'' None None ref_world))
         ''statistics'') (PStr ''rows'') = Some (PInt 4)
   \<and> map_of (fst (import_file ref_env ''/data/sales.csv'' None ''default'' None None
         (snd (import_file ref_env ''/data/sales.csv'' None ''default'' None None ref_world))))
         ''statistics''
       = map_of (fst (import_file ref_env ''/data/sales.csv'' None ''default'' None None ref_world))
         ''statistics''"
proof -
  let ?imp = "import_file ref_env ''/data/sales.csv'' None ''default'' None None"
  let ?info = "\<lparr>connection = ref_conn, path = ref_conn, tables = {''sales''}\<rparr>"
  have load: "load_by_extension ref_env ''/data/sales.csv'' None None = Some (Inr sales)"
    by code_simp
  have table: "''sales'' = or_else None (default_table_name ''/data/sales.csv'')"
    by code_simp
  have ok1: "status (fst (?imp ref_world)) = Some (PStr ''success'')"
    by code_simp
  have ok2: "status (fst (?imp (snd (?imp ref_world)))) = Some (PStr ''success'')"
    by code_simp
  have "keeps_connections ref_world (snd (?imp (snd (?imp ref_world))))"
    using import_file_keeps[of ref_world ref_env "''/data/sales.csv''" None "''default''" None None]
      import_file_keeps[of "snd (?imp ref_world)" ref_env "''/data/sales.csv''" None "''default''" None None]
    by (rule keeps_connections_trans)
  moreover have "db_connections ref_world ''default'' = Some ?info"
    by (simp add: ref_world_def)
  ultimately have "\<exists>info'. db_connections (snd (?imp (snd (?imp ref_world)))) ''default'' = Some info'
      \<and> connection info' = connection ?info \<and> path info' = path ?info"
    unfolding keeps_connections_def by blast
  then obtain info' where reg: "db_connections (snd (?imp (snd (?imp ref_world)))) ''default'' = Some info'"
    and conn: "connection info' = ref_conn"
    by auto
  note inst = import_file_twice[OF replaces_table_ref_env load table surjective_pairing ok1
      surjective_pairing ok2 reg]
  have rows: "length (df_rows sales) = 4" by (simp add: sales_def)
  have "named ''sales'' (dbfiles (snd (?imp (snd (?imp ref_world)))) (connection info'))
          = [(''sales'', sales)]"
    using inst by blast
  then have one: "named ''sales'' (dbfiles (snd (?imp (snd (?imp ref_world)))) ref_conn)
                    = [(''sales'', sales)]"
    by (simp only: conn)
  have s1: "map_of (fst (?imp ref_world)) ''statistics'' = Some (import_statistics sales)"
    and s2: "map_of (fst (?imp (snd (?imp ref_world)))) ''statistics'' = Some (import_statistics sales)"
    using inst by blast+
  have "dict_entry (map_of (fst (?imp ref_world)) ''statistics'') (PStr ''rows'')
          = Some (PInt (int (length (df_rows sales))))"
    using inst by blast
  then have n: "dict_entry (map_of (fst (?imp ref_world)) ''statistics'') (PStr ''rows'')
                  = Some (PInt 4)"
    by (simp only: rows) simp
  show ?thesis
    using replaces_table_ref_env load table[symmetric] ok1 ok2 one n
    by (simp add: s1 s2)
qed

end
